theory Spec2Isabelle
  imports Complex_Main
begin

section \<open>Data model (src/types.ts)\<close>

text \<open>
  JavaScript numbers are modelled as exact reals: rounding error of IEEE doubles is not
  part of the model.  Where the source divides by a quantity that can be zero, the
  non-finite outcomes are modelled explicitly (type \<open>jsnum\<close> below).
  Record fields carry a short prefix naming the object they are read from in the source
  (\<open>data.width\<close> is \<open>data_width\<close>, \<open>obj.x\<close> is \<open>obj_x\<close>, \<open>lighting.value\<close> is
  \<open>l_value\<close>).  The industrial data types are modelled; the sports module of this
  repository mounts no canvas.
\<close>

datatype LightingOrientation = Longitudinal | Transversal

datatype LightingMode = Quantity | Distance

record LightingConfig =
  l_isActive :: bool
  l_orientation :: LightingOrientation
  l_mode :: LightingMode
  l_value :: real
  l_offset :: real
  l_fixtureQty :: real
  l_fixturesPerProfile :: real

datatype ObjectType = RACK | MEZZANINE

record RackBlock =
  obj_id :: string
  obj_type :: ObjectType
  obj_x :: real
  obj_y :: real
  obj_width :: real
  obj_depth :: real
  obj_height :: real
  obj_elevation :: real
  obj_label :: string

record StorageConfig =
  s_isActive :: bool
  racks :: "RackBlock list"

record ProjectData =
  projectName :: string
  data_width :: real
  data_length :: real
  ceilingHeight :: real
  lighting :: LightingConfig
  storage :: StorageConfig
  luxRequired :: real
  observations :: string

section \<open>Lighting layout (drawScene2D, profilePositions)\<close>

text \<open>
  The counting loops \<open>for (let i = 0; i < n; i++) { xs.push(f(i)); }\<close> of the source,
  with a bound \<open>n\<close> that is a JavaScript number (not necessarily an integer).
\<close>

function forLoop :: "real \<Rightarrow> (nat \<Rightarrow> 'a) \<Rightarrow> nat \<Rightarrow> 'a list \<Rightarrow> 'a list" where
  "forLoop n f i acc = (if real i < n then forLoop n f (Suc i) (acc @ [f i]) else acc)"
  by pat_completeness auto
termination
proof (relation "measure (\<lambda>(n, f, i, acc). nat \<lceil>n\<rceil> - i)")
  show "wf (measure (\<lambda>(n, f, i, acc). nat \<lceil>n :: real\<rceil> - i))" by simp
next
  fix n :: real and f :: "nat \<Rightarrow> 'a" and i :: nat and acc :: "'a list"
  assume "real i < n"
  then have "int i < \<lceil>n\<rceil>" by linarith
  then show "((n, f, Suc i, acc @ [f i]), (n, f, i, acc))
      \<in> measure (\<lambda>(n, f, i, acc). nat \<lceil>n\<rceil> - i)"
    by simp
qed

declare forLoop.simps [simp del]

definition axisLimit :: "ProjectData \<Rightarrow> real" where
  "axisLimit data =
     (if l_orientation (lighting data) = Longitudinal then data_width data else data_length data)"

text \<open>The list \<open>profilePositions\<close> built by src/components/WarehouseCanvas.tsx.\<close>

definition profilePositions :: "ProjectData \<Rightarrow> real list" where
  "profilePositions data =
     (let value = l_value (lighting data);
          offset = l_offset (lighting data)
      in if l_mode (lighting data) = Quantity then
           (if value \<ge> 1 then
              (if value = 1 then [axisLimit data / 2]
               else
                 (let availableSpace = axisLimit data - (offset * 2);
                      step = availableSpace / (value - 1)
                  in forLoop value (\<lambda>i. offset + (real i * step)) 0 []))
            else [])
         else
           (if value > 0.01 then
              (let available = axisLimit data - (offset * 2)
               in if available \<ge> 0 then
                    (let intervals = \<lfloor>available / value\<rfloor>;
                         count = intervals + 1
                     in if count > 0 then
                          (let span = real_of_int intervals * value;
                               start = offset + ((available - span) / 2)
                           in forLoop (real_of_int count) (\<lambda>i. start + (real i * value)) 0 [])
                        else [])
                  else [])
            else []))"

text \<open>
  The legacy renderer (src/WarehouseCanvas.tsx) steps from \<open>offset\<close> in increments of
  \<open>value\<close> while below \<open>axisLimit\<close>, at most 5000 times.
\<close>

function legacyLoop :: "real \<Rightarrow> real \<Rightarrow> real \<Rightarrow> nat \<Rightarrow> real list \<Rightarrow> real list" where
  "legacyLoop axLimit value currentPos iterations acc =
     (if currentPos < axLimit \<and> iterations < 5000
      then legacyLoop axLimit value (currentPos + value) (Suc iterations) (acc @ [currentPos])
      else acc)"
  by pat_completeness auto
termination
  by (relation "measure (\<lambda>(axLimit, value, currentPos, iterations, acc). 5000 - iterations)") auto

declare legacyLoop.simps [simp del]

definition legacyProfilePositions :: "ProjectData \<Rightarrow> real list" where
  "legacyProfilePositions data =
     (let value = l_value (lighting data);
          offset = l_offset (lighting data)
      in if l_mode (lighting data) = Quantity then
           (if value \<ge> 1 then
              (if value = 1 then [axisLimit data / 2]
               else
                 (let availableSpace = axisLimit data - (offset * 2);
                      step = availableSpace / (value - 1)
                  in forLoop value (\<lambda>i. offset + (real i * step)) 0 []))
            else [])
         else
           (if value > 0.01 then legacyLoop (axisLimit data) value offset 0 [] else []))"

section \<open>Unit/pixel transform (drawScene2D metrics, getMetrics)\<close>

text \<open>
  The view state \<open>{scale, x, y}\<close> and the object returned by \<open>getMetrics\<close> and
  \<open>drawScene2D\<close>: \<open>{ scale: finalScale, originX, originY, drawWidth, drawLength }\<close>.
\<close>

record Transform =
  t_scale :: real
  t_x :: real
  t_y :: real

record Metrics =
  m_scale :: real
  m_originX :: real
  m_originY :: real
  m_drawWidth :: real
  m_drawLength :: real

definition padding :: real where
  "padding = 60"

text \<open>\<open>v || 1\<close>: the number \<open>0\<close> is falsy.\<close>

definition orOne :: "real \<Rightarrow> real" where
  "orOne v = (if v = 0 then 1 else v)"

text \<open>
  The metrics block at the head of \<open>drawScene2D(ctx, width, height, currentTransform)\<close>;
  \<open>getMetrics\<close> repeats it with \<open>canvas.width\<close>, \<open>canvas.height\<close> and the component's
  \<open>transform\<close>.
\<close>

definition getMetrics :: "ProjectData \<Rightarrow> real \<Rightarrow> real \<Rightarrow> Transform \<Rightarrow> Metrics" where
  "getMetrics data width height currentTransform =
     (let availableWidth = width - padding * 2;
          availableHeight = height - padding * 2;
          baseScaleX = availableWidth / orOne (data_width data);
          baseScaleY = availableHeight / orOne (data_length data);
          baseScale = min baseScaleX baseScaleY;
          finalScale = baseScale * t_scale currentTransform;
          drawWidth = data_width data * finalScale;
          drawLength = data_length data * finalScale;
          originX = ((width - drawWidth) / 2) + t_x currentTransform;
          originY = ((height - drawLength) / 2) + t_y currentTransform
      in \<lparr> m_scale = finalScale, m_originX = originX, m_originY = originY,
           m_drawWidth = drawWidth, m_drawLength = drawLength \<rparr>)"

text \<open>Forward mapping, meters to pixels (\<open>toPx\<close>, \<open>getX\<close>, \<open>getY\<close> of \<open>drawScene2D\<close>).\<close>

definition toPx :: "Metrics \<Rightarrow> real \<Rightarrow> real" where
  "toPx m meters = meters * m_scale m"

definition getX :: "Metrics \<Rightarrow> real \<Rightarrow> real" where
  "getX m meters = m_originX m + toPx m meters"

definition getY :: "Metrics \<Rightarrow> real \<Rightarrow> real" where
  "getY m meters = m_originY m + toPx m meters"

text \<open>
  The result of a JavaScript division whose divisor may be zero: a finite number,
  \<open>Infinity\<close>, \<open>-Infinity\<close> or \<open>NaN\<close>.  Signed zeros are not modelled: a zero
  divisor is taken to be \<open>+0\<close>, which is what the scale is whenever it is zero for a
  site with non-negative dimensions and a positive zoom factor.
\<close>

datatype jsnum = Fin real | PosInf | NegInf | NaN

definition js_div :: "real \<Rightarrow> real \<Rightarrow> jsnum" where
  "js_div a b =
     (if b \<noteq> 0 then Fin (a / b)
      else if a > 0 then PosInf
      else if a < 0 then NegInf
      else NaN)"

text \<open>
  Inverse mapping, pixels to meters, as written in \<open>handleMouseMove\<close>:
  \<open>(rawX - metrics.originX) / metrics.scale\<close>.
\<close>

definition fromPxX :: "Metrics \<Rightarrow> real \<Rightarrow> jsnum" where
  "fromPxX m rawX = js_div (rawX - m_originX m) (m_scale m)"

definition fromPxY :: "Metrics \<Rightarrow> real \<Rightarrow> jsnum" where
  "fromPxY m rawY = js_div (rawY - m_originY m) (m_scale m)"

section \<open>Interaction controller (handleMouseMove)\<close>

text \<open>
  \<open>Math.round(v / SNAP_INCREMENT) * SNAP_INCREMENT\<close> with \<open>SNAP_INCREMENT = 0.5\<close>.
  \<open>Math.round\<close> rounds halves towards plus infinity, as \<open>round\<close> does in HOL;
  infinities and \<open>NaN\<close> pass through.
\<close>

definition SNAP_INCREMENT :: real where
  "SNAP_INCREMENT = 0.5"

fun snap :: "jsnum \<Rightarrow> jsnum" where
  "snap (Fin v) = Fin (real_of_int (round (v / SNAP_INCREMENT)) * SNAP_INCREMENT)"
| "snap PosInf = PosInf"
| "snap NegInf = NegInf"
| "snap NaN = NaN"

text \<open>\<open>Math.min(v, hi)\<close> and \<open>Math.max(lo, v)\<close> for a finite second operand.\<close>

fun mathMin :: "jsnum \<Rightarrow> real \<Rightarrow> jsnum" where
  "mathMin (Fin v) hi = Fin (min v hi)"
| "mathMin PosInf hi = Fin hi"
| "mathMin NegInf hi = NegInf"
| "mathMin NaN hi = NaN"

fun mathMax :: "real \<Rightarrow> jsnum \<Rightarrow> jsnum" where
  "mathMax lo (Fin v) = Fin (max lo v)"
| "mathMax lo PosInf = PosInf"
| "mathMax lo NegInf = Fin lo"
| "mathMax lo NaN = NaN"

record DragTarget =
  dt_id :: string
  dt_offsetX :: real
  dt_offsetY :: real

datatype ViewMode = View2D | View3D

text \<open>
  The props and state of the canvas component that \<open>handleMouseMove\<close> reads.  The
  component is modelled in its \<open>'INDUSTRIAL'\<close> mode, the default and the only mode in
  which this repository instantiates it (IndustrialApp); \<open>getObjects()\<close> is then
  \<open>data.storage.racks\<close>.
\<close>

record Canvas =
  c_data :: ProjectData
  c_width :: real
  c_height :: real
  c_isInteractive :: bool
  c_viewMode :: ViewMode
  c_hasOnRackMove :: bool
  c_dragTarget :: "DragTarget option"
  c_transform :: Transform
  c_isPanning :: bool

definition getObjects :: "ProjectData \<Rightarrow> RackBlock list" where
  "getObjects data = racks (storage data)"

text \<open>
  \<open>handleMouseMove\<close>, as far as the move callback is concerned: the result is the
  argument triple of the call \<open>onRackMove(id, xMeters, yMeters)\<close>, or \<open>None\<close> when the
  handler returns without calling it (3D view, panning, not interactive, no drag
  session or no callback, dragged object not found).  \<open>mouseX\<close>, \<open>mouseY\<close> are the
  canvas coordinates of the pointer; the canvas element is taken to be mounted, so that
  \<open>getMetrics\<close> does not return \<open>null\<close>.
\<close>

definition handleMouseMove :: "Canvas \<Rightarrow> real \<Rightarrow> real \<Rightarrow> (string \<times> jsnum \<times> jsnum) option" where
  "handleMouseMove c mouseX mouseY =
     (if c_viewMode c = View3D then None
      else if c_isPanning c then None
      else if \<not> c_isInteractive c then None
      else
        (let metrics = getMetrics (c_data c) (c_width c) (c_height c) (c_transform c)
         in case c_dragTarget c of
              None \<Rightarrow> None
            | Some dragTarget \<Rightarrow>
                if \<not> c_hasOnRackMove c then None
                else
                  (let rawX = mouseX - dt_offsetX dragTarget;
                       rawY = mouseY - dt_offsetY dragTarget;
                       xMeters = snap (fromPxX metrics rawX);
                       yMeters = snap (fromPxY metrics rawY)
                   in case find (\<lambda>r. obj_id r = dt_id dragTarget) (getObjects (c_data c)) of
                        None \<Rightarrow> None
                      | Some obj \<Rightarrow>
                          Some (dt_id dragTarget,
                                mathMax 0 (mathMin xMeters (data_width (c_data c) - obj_width obj)),
                                mathMax 0 (mathMin yMeters (data_length (c_data c) - obj_depth obj))))))"

section \<open>Object collection (src/components/IndustrialApp.tsx)\<close>

record RackDims =
  rd_w :: real
  rd_d :: real
  rd_h :: real

record MezzDims =
  md_w :: real
  md_d :: real
  md_el :: real

text \<open>Decimal rendering of a count inside a template string.\<close>

fun showNat :: "nat \<Rightarrow> string" where
  "showNat n =
     (if n < 10 then [char_of (48 + n)]
      else showNat (n div 10) @ [char_of (48 + n mod 10)])"

text \<open>
  \<open>handleAddObject\<close>: \<open>newId\<close> stands for the identifier drawn from \<open>Math.random()\<close>;
  the result is the new value of \<open>data\<close> (unchanged when the handler returns early).
\<close>

definition handleAddObject ::
    "string \<Rightarrow> ObjectType \<Rightarrow> RackDims \<Rightarrow> MezzDims \<Rightarrow> ProjectData \<Rightarrow> ProjectData" where
  "handleAddObject newId inputMode newRackDims newMezzDims data =
     (let isMezzanine = (inputMode = MEZZANINE);
          w = (if isMezzanine then md_w newMezzDims else rd_w newRackDims);
          d = (if isMezzanine then md_d newMezzDims else rd_d newRackDims);
          h = (if isMezzanine then 0.2 else rd_h newRackDims);
          el = (if isMezzanine then md_el newMezzDims else 0)
      in if w \<le> 0 \<or> d \<le> 0 then data
         else
           (let newBlock = \<lparr> obj_id = newId, obj_type = inputMode, obj_x = 1, obj_y = 1,
                  obj_width = w, obj_depth = d, obj_height = h, obj_elevation = el,
                  obj_label =
                    (if isMezzanine
                     then ''M'' @ showNat (length (filter (\<lambda>r. obj_type r = MEZZANINE) (racks (storage data))) + 1)
                     else ''B'' @ showNat (length (filter (\<lambda>r. obj_type r = RACK) (racks (storage data))) + 1)) \<rparr>
            in data\<lparr> storage := (storage data)\<lparr> s_isActive := True,
                                                  racks := racks (storage data) @ [newBlock] \<rparr> \<rparr>))"

definition handleRackMove :: "string \<Rightarrow> real \<Rightarrow> real \<Rightarrow> ProjectData \<Rightarrow> ProjectData" where
  "handleRackMove ident x y prev =
     prev\<lparr> storage := (storage prev)\<lparr>
       racks := map (\<lambda>r. if obj_id r = ident then r\<lparr> obj_x := x, obj_y := y \<rparr> else r)
                    (racks (storage prev)) \<rparr> \<rparr>"

definition removeRack :: "string \<Rightarrow> ProjectData \<Rightarrow> ProjectData" where
  "removeRack ident prev =
     prev\<lparr> storage := (storage prev)\<lparr>
       racks := filter (\<lambda>r. obj_id r \<noteq> ident) (racks (storage prev)),
       s_isActive := length (racks (storage prev)) > 1 \<rparr> \<rparr>"

definition updateRackLabel :: "string \<Rightarrow> string \<Rightarrow> ProjectData \<Rightarrow> ProjectData" where
  "updateRackLabel ident newLabel prev =
     prev\<lparr> storage := (storage prev)\<lparr>
       racks := map (\<lambda>r. if obj_id r = ident then r\<lparr> obj_label := newLabel \<rparr> else r)
                    (racks (storage prev)) \<rparr> \<rparr>"

definition resetStorage :: "ProjectData \<Rightarrow> ProjectData" where
  "resetStorage data = data\<lparr> storage := (storage data)\<lparr> racks := [], s_isActive := False \<rparr> \<rparr>"

definition DEFAULT_PROJECT :: ProjectData where
  "DEFAULT_PROJECT =
     \<lparr> projectName = ''Novo Projeto'', data_width = 0, data_length = 0, ceilingHeight = 0,
       lighting = \<lparr> l_isActive = True, l_orientation = Longitudinal, l_mode = Distance,
                    l_value = 5, l_offset = 2, l_fixtureQty = 0, l_fixturesPerProfile = 0 \<rparr>,
       storage = \<lparr> s_isActive = False, racks = [] \<rparr>,
       luxRequired = 300, observations = [] \<rparr>"

section \<open>Scene renderer, 2D (drawScene2D)\<close>

text \<open>
  The renderer is modelled, in its \<open>'INDUSTRIAL'\<close> mode, by the list of
  geometry-producing canvas calls it issues, in order.  Style assignments (\<open>fillStyle\<close>, \<open>strokeStyle\<close>, \<open>lineWidth\<close>, \<open>font\<close>,
  shadows, dashes) are not recorded; a \<open>moveTo\<close>/\<open>lineTo\<close> pair is one \<open>Line\<close>, an
  \<open>arc\<close> over the full circle with its \<open>fill\<close> is one \<open>Arc\<close>, and
  \<open>translate(x, y); rotate(-\<pi>/2); fillText(t, 0, 0)\<close> is one \<open>FillTextRotated\<close>.
  Texts are kept symbolic: \<open>Placeholder\<close> is the literal shown for an undefined site,
  \<open>Meters v\<close> is the template \<open>${v}m\<close>, \<open>Fixed2m v\<close> is \<open>${v.toFixed(2)}m\<close>,
  \<open>ElevText v\<close> is \<open>E:${v}m\<close> and \<open>HeightText v\<close> is \<open>H:${v}m\<close>.
\<close>

datatype caption =
    Label string
  | Placeholder
  | Meters real
  | Fixed2m real
  | ElevText real
  | HeightText real

datatype draw_call =
    FillRect real real real real
  | StrokeRect real real real real
  | Line real real real real
  | Arc real real real
  | FillText caption real real
  | FillTextRotated caption real real

text \<open>
  \<open>for (let i = gridStep; i < bound; i += gridStep)\<close>.  \<open>gridStep\<close> is 10 or 5 at the
  call sites; the test \<open>0 < gridStep\<close> only makes the function total.
\<close>

function gridLoop :: "real \<Rightarrow> real \<Rightarrow> (real \<Rightarrow> 'a) \<Rightarrow> real \<Rightarrow> 'a list \<Rightarrow> 'a list" where
  "gridLoop gridStep bound f i acc =
     (if 0 < gridStep \<and> i < bound then gridLoop gridStep bound f (i + gridStep) (acc @ [f i])
      else acc)"
  by pat_completeness auto
termination
proof (relation "measure (\<lambda>(gridStep, bound, f, i, acc). nat \<lceil>(bound - i) / gridStep\<rceil>)")
  show "wf (measure (\<lambda>(gridStep :: real, bound :: real, f :: real \<Rightarrow> 'a, i :: real, acc :: 'a list).
              nat \<lceil>(bound - i) / gridStep\<rceil>))"
    by simp
next
  fix gridStep bound :: real and f :: "real \<Rightarrow> 'a" and i :: real and acc :: "'a list"
  assume a: "0 < gridStep \<and> i < bound"
  then have pos: "0 < (bound - i) / gridStep" by simp
  have "(bound - (i + gridStep)) / gridStep = (bound - i) / gridStep - 1"
    using a by (simp add: field_simps)
  then have "\<lceil>(bound - (i + gridStep)) / gridStep\<rceil> = \<lceil>(bound - i) / gridStep\<rceil> - 1"
    by simp
  moreover have "0 < \<lceil>(bound - i) / gridStep\<rceil>" using pos by simp
  ultimately show "((gridStep, bound, f, i + gridStep, acc @ [f i]), (gridStep, bound, f, i, acc))
      \<in> measure (\<lambda>(gridStep, bound, f, i, acc). nat \<lceil>(bound - i) / gridStep\<rceil>)"
    by simp
qed

declare gridLoop.simps [simp del]

text \<open>
  \<open>drawDimensionLine\<close>: the line, the white box behind the text and the text.
  \<open>measureText\<close> stands for \<open>ctx.measureText(text).width\<close>, which depends on the font.
\<close>

definition drawDimensionLine ::
    "(caption \<Rightarrow> real) \<Rightarrow> real \<Rightarrow> real \<Rightarrow> real \<Rightarrow> real \<Rightarrow> caption \<Rightarrow> draw_call list" where
  "drawDimensionLine measureText x1 y1 x2 y2 text =
     (let tm = measureText text; cx = (x1 + x2) / 2; cy = (y1 + y2) / 2
      in [Line x1 y1 x2 y2,
          FillRect (cx - tm / 2 - 4) (cy - 8) (tm + 8) 16,
          FillText text cx cy])"

definition drawFloor :: "ProjectData \<Rightarrow> Metrics \<Rightarrow> draw_call list" where
  "drawFloor data m =
     (let gridStep = (if m_scale m < 5 then 10 else 5) :: real
      in [FillRect (m_originX m) (m_originY m) (m_drawWidth m) (m_drawLength m)]
         @ gridLoop gridStep (data_width data)
             (\<lambda>i. Line (getX m i) (getY m 0) (getX m i) (getY m (data_length data))) gridStep []
         @ gridLoop gridStep (data_length data)
             (\<lambda>i. Line (getX m 0) (getY m i) (getX m (data_width data)) (getY m i)) gridStep []
         @ [StrokeRect (m_originX m) (m_originY m) (m_drawWidth m) (m_drawLength m)])"

definition GLOBAL_DIM_OFFSET :: real where
  "GLOBAL_DIM_OFFSET = 30"

definition drawGlobalDimensions :: "ProjectData \<Rightarrow> Metrics \<Rightarrow> draw_call list" where
  "drawGlobalDimensions data m =
     [Line (m_originX m) (m_originY m - GLOBAL_DIM_OFFSET)
           (m_originX m + m_drawWidth m) (m_originY m - GLOBAL_DIM_OFFSET),
      FillText (Meters (data_width data))
           (m_originX m + m_drawWidth m / 2) (m_originY m - GLOBAL_DIM_OFFSET - 5),
      Line (m_originX m - GLOBAL_DIM_OFFSET) (m_originY m)
           (m_originX m - GLOBAL_DIM_OFFSET) (m_originY m + m_drawLength m),
      FillTextRotated (Meters (data_length data))
           (m_originX m - GLOBAL_DIM_OFFSET - 10) (m_originY m + m_drawLength m / 2)]"

definition drawFixture :: "Metrics \<Rightarrow> real \<Rightarrow> real \<Rightarrow> draw_call" where
  "drawFixture m xMeters yMeters =
     (let cx = getX m xMeters; cy = getY m yMeters;
          radius = max 3 (min 8 (3 * (m_scale m / 1)))
      in Arc cx cy radius)"

definition drawLighting :: "ProjectData \<Rightarrow> Metrics \<Rightarrow> draw_call list" where
  "drawLighting data m =
     (if l_isActive (lighting data) then
        (let fixturesPerProfile = l_fixturesPerProfile (lighting data);
             isLongitudinal = (l_orientation (lighting data) = Longitudinal);
             positions = profilePositions data;
             profileLength = (if isLongitudinal then data_length data else data_width data)
         in concat (map (\<lambda>pos.
                      if pos > axisLimit data then []
                      else if isLongitudinal
                      then [Line (getX m pos) (getY m 0) (getX m pos) (getY m (data_length data))]
                      else [Line (getX m 0) (getY m pos) (getX m (data_width data)) (getY m pos)])
                    positions)
            @ (if fixturesPerProfile > 0 \<and> length positions > 0 then
                 (let margin = 1; usableLen = profileLength - (margin * 2)
                  in concat (map (\<lambda>pos.
                       (let step = (if fixturesPerProfile > 1
                                    then usableLen / (fixturesPerProfile - 1) else 0)
                        in forLoop fixturesPerProfile
                             (\<lambda>i. (let distAlong = (if fixturesPerProfile = 1 then profileLength / 2
                                                     else margin + (real i * step))
                                    in if isLongitudinal then drawFixture m pos distAlong
                                       else drawFixture m distAlong pos))
                             0 []))
                     positions))
               else []))
      else [])"

subsection \<open>Nearest-neighbour gaps of the dragged object\<close>

text \<open>
  Each side keeps the pair of source variables \<open>(distRight, closestRight)\<close> and so on;
  they are assigned together, so they are one optional pair here, \<open>None\<close> being the
  initial \<open>(Infinity, null)\<close>.
\<close>

record Neighbors =
  closestLeft :: "(real \<times> RackBlock) option"
  closestRight :: "(real \<times> RackBlock) option"
  closestTop :: "(real \<times> RackBlock) option"
  closestBottom :: "(real \<times> RackBlock) option"

definition EPSILON :: real where
  "EPSILON = 0.05"

text \<open>\<open>if (gap < distX) { distX = gap; closestX = other; }\<close>\<close>

definition closer :: "real \<Rightarrow> RackBlock \<Rightarrow> (real \<times> RackBlock) option \<Rightarrow> (real \<times> RackBlock) option" where
  "closer gap other cur =
     (case cur of
        None \<Rightarrow> Some (gap, other)
      | Some (bestGap, c) \<Rightarrow> if gap < bestGap then Some (gap, other) else cur)"

definition neighborStep :: "RackBlock \<Rightarrow> Neighbors \<Rightarrow> RackBlock \<Rightarrow> Neighbors" where
  "neighborStep obj s other =
     (let vertOverlap = max 0 (min (obj_y obj + obj_depth obj) (obj_y other + obj_depth other)
                               - max (obj_y obj) (obj_y other) + EPSILON);
          s1 = (if vertOverlap > 0 \<and> obj_x other \<ge> obj_x obj + obj_width obj
                then s\<lparr> closestRight :=
                         closer (obj_x other - (obj_x obj + obj_width obj)) other (closestRight s) \<rparr>
                else s);
          s2 = (if vertOverlap > 0 \<and> obj_x other + obj_width other \<le> obj_x obj
                then s1\<lparr> closestLeft :=
                         closer (obj_x obj - (obj_x other + obj_width other)) other (closestLeft s1) \<rparr>
                else s1);
          horzOverlap = max 0 (min (obj_x obj + obj_width obj) (obj_x other + obj_width other)
                               - max (obj_x obj) (obj_x other) + EPSILON);
          s3 = (if horzOverlap > 0 \<and> obj_y other \<ge> obj_y obj + obj_depth obj
                then s2\<lparr> closestBottom :=
                         closer (obj_y other - (obj_y obj + obj_depth obj)) other (closestBottom s2) \<rparr>
                else s2);
          s4 = (if horzOverlap > 0 \<and> obj_y other + obj_depth other \<le> obj_y obj
                then s3\<lparr> closestTop :=
                         closer (obj_y obj - (obj_y other + obj_depth other)) other (closestTop s3) \<rparr>
                else s3)
      in s4)"

definition findNeighbors :: "RackBlock list \<Rightarrow> RackBlock \<Rightarrow> Neighbors" where
  "findNeighbors objects obj =
     (let otherObjects = filter (\<lambda>other. obj_id other \<noteq> obj_id obj) objects
      in foldl (neighborStep obj)
           \<lparr> closestLeft = None, closestRight = None, closestTop = None, closestBottom = None \<rparr>
           otherObjects)"

text \<open>The gap labels drawn for the dragged object, \<open>None\<close> when the side has no neighbour.\<close>

definition rightGap :: "RackBlock list \<Rightarrow> RackBlock \<Rightarrow> real option" where
  "rightGap objects obj = map_option fst (closestRight (findNeighbors objects obj))"

definition leftGap :: "RackBlock list \<Rightarrow> RackBlock \<Rightarrow> real option" where
  "leftGap objects obj = map_option fst (closestLeft (findNeighbors objects obj))"

subsection \<open>Placed objects and the whole scene\<close>

text \<open>
  The annotations of the dragged object: two wall distances with their projection
  guides, then one dimension line per side that has a neighbour.
\<close>

definition drawDraggedDimensions ::
    "(caption \<Rightarrow> real) \<Rightarrow> Metrics \<Rightarrow> RackBlock list \<Rightarrow> RackBlock \<Rightarrow> draw_call list" where
  "drawDraggedDimensions measureText m objects obj =
     (let pxX = getX m (obj_x obj); pxY = getY m (obj_y obj);
          pxW = toPx m (obj_width obj); pxH = toPx m (obj_depth obj);
          OFFSET = 35;
          wallDimY = pxY + pxH + OFFSET;
          wallDimX = pxX + pxW + OFFSET;
          nb = findNeighbors objects obj;
          cy = pxY + pxH / 2;
          cx = pxX + pxW / 2
      in [Line (m_originX m) (pxY + pxH) (m_originX m) wallDimY,
          Line pxX (pxY + pxH) pxX wallDimY]
         @ drawDimensionLine measureText (m_originX m) wallDimY pxX wallDimY (Fixed2m (obj_x obj))
         @ [Line (pxX + pxW) (m_originY m) wallDimX (m_originY m),
            Line (pxX + pxW) pxY wallDimX pxY]
         @ drawDimensionLine measureText wallDimX (m_originY m) wallDimX pxY (Fixed2m (obj_y obj))
         @ (case closestRight nb of
              None \<Rightarrow> []
            | Some (distRight, n) \<Rightarrow>
                drawDimensionLine measureText (pxX + pxW) cy (getX m (obj_x n)) cy (Fixed2m distRight))
         @ (case closestLeft nb of
              None \<Rightarrow> []
            | Some (distLeft, n) \<Rightarrow>
                drawDimensionLine measureText pxX cy (getX m (obj_x n + obj_width n)) cy (Fixed2m distLeft))
         @ (case closestBottom nb of
              None \<Rightarrow> []
            | Some (distBottom, n) \<Rightarrow>
                drawDimensionLine measureText cx (pxY + pxH) cx (getY m (obj_y n)) (Fixed2m distBottom))
         @ (case closestTop nb of
              None \<Rightarrow> []
            | Some (distTop, n) \<Rightarrow>
                drawDimensionLine measureText cx pxY cx (getY m (obj_y n + obj_depth n)) (Fixed2m distTop)))"

text \<open>
  The body of \<open>sortedForDrawing.forEach\<close> for a rack or mezzanine: rectangle, label,
  height or elevation line, and the annotations when the object is the dragged one.
\<close>

definition drawObject ::
    "(caption \<Rightarrow> real) \<Rightarrow> Metrics \<Rightarrow> RackBlock list \<Rightarrow> DragTarget option \<Rightarrow> RackBlock
       \<Rightarrow> draw_call list" where
  "drawObject measureText m objects dragTarget obj =
     (let isDragged = (case dragTarget of None \<Rightarrow> False | Some dt \<Rightarrow> dt_id dt = obj_id obj);
          pxX = getX m (obj_x obj); pxY = getY m (obj_y obj);
          pxW = toPx m (obj_width obj); pxH = toPx m (obj_depth obj);
          fontSize = max 10 (min 16 (11 * (m_scale m / 1)))
      in [FillRect pxX pxY pxW pxH,
          StrokeRect pxX pxY pxW pxH,
          FillText (Label (obj_label obj)) (pxX + pxW / 2) (pxY + pxH / 2)]
         @ (if obj_height obj \<noteq> 0 \<or> obj_elevation obj \<noteq> 0
            then [FillText (if obj_elevation obj \<noteq> 0 then ElevText (obj_elevation obj)
                            else HeightText (obj_height obj))
                           (pxX + pxW / 2) (pxY + pxH / 2 + fontSize)]
            else [])
         @ (if isDragged then drawDraggedDimensions measureText m objects obj else []))"

text \<open>
  \<open>[...objects].sort((a, b) => (a.elevation || 0) - (b.elevation || 0))\<close>: a stable sort
  by elevation.
\<close>

definition drawObjects ::
    "(caption \<Rightarrow> real) \<Rightarrow> Metrics \<Rightarrow> RackBlock list \<Rightarrow> DragTarget option \<Rightarrow> draw_call list" where
  "drawObjects measureText m objects dragTarget =
     (if length objects > 0 then
        (let sortedForDrawing = sort_key obj_elevation objects
         in concat (map (drawObject measureText m objects dragTarget) sortedForDrawing))
      else [])"

text \<open>
  \<open>drawScene2D\<close>: the calls issued and the metrics object returned.  A site with a
  non-positive dimension gets the background and the placeholder text only.
\<close>

definition drawScene2D ::
    "(caption \<Rightarrow> real) \<Rightarrow> ProjectData \<Rightarrow> DragTarget option \<Rightarrow> real \<Rightarrow> real \<Rightarrow> Transform
       \<Rightarrow> draw_call list \<times> Metrics" where
  "drawScene2D measureText data dragTarget width height currentTransform =
     (let m = getMetrics data width height currentTransform;
          background = [FillRect 0 0 width height]
      in if data_width data \<le> 0 \<or> data_length data \<le> 0
         then (background @ [FillText Placeholder (width / 2) (height / 2)], m)
         else (background
               @ drawFloor data m
               @ drawGlobalDimensions data m
               @ drawLighting data m
               @ drawObjects measureText m (getObjects data) dragTarget,
               m))"

section \<open>Concrete inputs\<close>

definition exampleDistance :: ProjectData where
  "exampleDistance =
     \<lparr> projectName = ''Example'', data_width = 20, data_length = 30, ceilingHeight = 8,
       lighting = \<lparr> l_isActive = True, l_orientation = Longitudinal, l_mode = Distance,
                    l_value = 5, l_offset = 2, l_fixtureQty = 0, l_fixturesPerProfile = 0 \<rparr>,
       storage = \<lparr> s_isActive = False, racks = [] \<rparr>,
       luxRequired = 300, observations = [] \<rparr>"

definition exampleQuantity :: ProjectData where
  "exampleQuantity =
     exampleDistance\<lparr> lighting := (lighting exampleDistance)\<lparr> l_mode := Quantity, l_value := 3 \<rparr> \<rparr>"

text \<open>The initial and reset view state \<open>{ scale: 1, x: 0, y: 0 }\<close>.\<close>

definition defaultTransform :: Transform where
  "defaultTransform = \<lparr> t_scale = 1, t_x = 0, t_y = 0 \<rparr>"

definition objA :: RackBlock where
  "objA = \<lparr> obj_id = ''a'', obj_type = RACK, obj_x = 0, obj_y = 0, obj_width = 2, obj_depth = 2,
            obj_height = 2, obj_elevation = 0, obj_label = ''B1'' \<rparr>"

definition objB :: RackBlock where
  "objB = \<lparr> obj_id = ''b'', obj_type = RACK, obj_x = 5, obj_y = 0, obj_width = 2, obj_depth = 2,
            obj_height = 2, obj_elevation = 0, obj_label = ''B2'' \<rparr>"

text \<open>An object narrower than the snap grid allows for, and deeper than the site.\<close>

definition objC :: RackBlock where
  "objC = \<lparr> obj_id = ''c'', obj_type = RACK, obj_x = 1, obj_y = 0, obj_width = 1.2, obj_depth = 12,
            obj_height = 2, obj_elevation = 0, obj_label = ''B3'' \<rparr>"

definition exampleStorage :: ProjectData where
  "exampleStorage =
     \<lparr> projectName = ''Example'', data_width = 10, data_length = 10, ceilingHeight = 8,
       lighting = \<lparr> l_isActive = True, l_orientation = Longitudinal, l_mode = Distance,
                    l_value = 5, l_offset = 2, l_fixtureQty = 0, l_fixturesPerProfile = 0 \<rparr>,
       storage = \<lparr> s_isActive = True, racks = [objA, objB, objC] \<rparr>,
       luxRequired = 300, observations = [] \<rparr>"

text \<open>
  The canvas as IndustrialApp mounts it (900 by 700 pixels) in the interactive step,
  with a drag session on the object \<open>ident\<close> grabbed at its top-left corner.
\<close>

definition exampleCanvas :: "string \<Rightarrow> Canvas" where
  "exampleCanvas ident =
     \<lparr> c_data = exampleStorage, c_width = 900, c_height = 700, c_isInteractive = True,
       c_viewMode = View2D, c_hasOnRackMove = True,
       c_dragTarget = Some \<lparr> dt_id = ident, dt_offsetX = 0, dt_offsetY = 0 \<rparr>,
       c_transform = defaultTransform, c_isPanning = False \<rparr>"

section \<open>Properties named by the specification\<close>

text \<open>A coordinate is on the snap grid when it is an integer multiple of 0.5.\<close>

definition onSnapGrid :: "real \<Rightarrow> bool" where
  "onSnapGrid v = (real_of_int \<lfloor>v / SNAP_INCREMENT\<rfloor> * SNAP_INCREMENT = v)"

text \<open>Every placed object has a positive footprint.\<close>

definition positiveFootprint :: "ProjectData \<Rightarrow> bool" where
  "positiveFootprint data = list_all (\<lambda>r. obj_width r > 0 \<and> obj_depth r > 0) (racks (storage data))"

text \<open>
  The Y-ranges of two objects overlap, with the tolerance of the source
  (\<open>vertOverlap > 0\<close>).
\<close>

definition yRangesOverlap :: "RackBlock \<Rightarrow> RackBlock \<Rightarrow> bool" where
  "yRangesOverlap a b =
     (max 0 (min (obj_y a + obj_depth a) (obj_y b + obj_depth b)
             - max (obj_y a) (obj_y b) + EPSILON) > 0)"

section \<open>IEEE-754 binary64 arithmetic\<close>

text \<open>
  The definitions above read the source over exact reals: that is what the round-trip
  property is worded over, and the comparison of the two renderers, the drag
  postcondition and the placeholder path do not depend on rounding.  The layout formulas
  and the fit of the scale do, so for them the same source lines are embedded once more
  in the arithmetic the program runs in.

  A JavaScript number is a binary64 value.  \<open>double x\<close> is the binary64 value nearest
  to the real \<open>x\<close>, ties to the even significand: it is the number the program holds
  for an entered decimal \<open>x\<close> or a numeric literal, and the result of an arithmetic
  operation is \<open>double\<close> of the exact result.  Subnormal numbers are covered (the
  exponent is clamped at \<open>-1022\<close>); overflow to \<open>Infinity\<close> is not, so the model
  stands for magnitudes below \<open>2 ^ 1024\<close>.  Loop counters and \<open>Math.floor\<close> results
  are integers, exact below \<open>2 ^ 53\<close>.
\<close>

text \<open>
  Rounding a real to the nearest integer, halves to the even one.
\<close>

definition roundHalfEven :: "real \<Rightarrow> int" where
  "roundHalfEven q =
     (let f = \<lfloor>q\<rfloor>; d = q - real_of_int f
      in if d < 1 / 2 then f
         else if d > 1 / 2 then f + 1
         else if even f then f else f + 1)"

text \<open>
  The binary exponent \<open>floor (log2 x)\<close> of a positive real, by repeated halving or
  doubling.
\<close>

function expoUp :: "real \<Rightarrow> int" where
  "expoUp x = (if x \<ge> 2 then expoUp (x / 2) + 1 else 0)"
  by pat_completeness auto
termination
proof (relation "measure (\<lambda>x. nat \<lfloor>x\<rfloor>)")
  show "wf (measure (\<lambda>x :: real. nat \<lfloor>x\<rfloor>))" by simp
next
  fix x :: real
  assume a: "2 \<le> x"
  then have "\<lfloor>x / 2\<rfloor> < \<lfloor>x\<rfloor>" by linarith
  moreover have "0 < \<lfloor>x\<rfloor>" using a by linarith
  ultimately show "(x / 2, x) \<in> measure (\<lambda>x. nat \<lfloor>x\<rfloor>)" by simp
qed

declare expoUp.simps [simp del]

function expoDown :: "real \<Rightarrow> int" where
  "expoDown x = (if 0 < x \<and> x < 1 then expoDown (x * 2) - 1 else 0)"
  by pat_completeness auto
termination
proof (relation "measure (\<lambda>x. nat \<lceil>1 / x\<rceil>)")
  show "wf (measure (\<lambda>x :: real. nat \<lceil>1 / x\<rceil>))" by simp
next
  fix x :: real
  assume a: "0 < x \<and> x < 1"
  define y where "y = 1 / x"
  have y: "1 < y" using a by (simp add: y_def)
  have h: "1 / (x * 2) = y / 2" by (simp add: y_def)
  have c1: "y \<le> real_of_int \<lceil>y\<rceil>" by (rule le_of_int_ceiling)
  have c2: "2 \<le> \<lceil>y\<rceil>" using y by linarith
  then have c3: "2 \<le> real_of_int \<lceil>y\<rceil>" by linarith
  have "y / 2 \<le> real_of_int \<lceil>y\<rceil> - 1" using c1 c3 by linarith
  then have "y / 2 \<le> real_of_int (\<lceil>y\<rceil> - 1)" by simp
  then have "\<lceil>y / 2\<rceil> \<le> \<lceil>y\<rceil> - 1" by (simp only: ceiling_le_iff)
  then have "nat \<lceil>y / 2\<rceil> < nat \<lceil>y\<rceil>" using c2 by linarith
  then show "(x * 2, x) \<in> measure (\<lambda>x. nat \<lceil>1 / x\<rceil>)"
    by (simp only: in_measure h y_def [symmetric])
qed

declare expoDown.simps [simp del]

definition expo :: "real \<Rightarrow> int" where
  "expo x = (if x \<ge> 1 then expoUp x else expoDown x)"

text \<open>
  The spacing of binary64 values around \<open>x\<close> (53 significant bits), and the rounding.
\<close>

definition ulp :: "real \<Rightarrow> real" where
  "ulp x = 2 powi (max (expo \<bar>x\<bar>) (- 1022) - 52)"

definition double :: "real \<Rightarrow> real" where
  "double x = (if x = 0 then 0 else real_of_int (roundHalfEven (x / ulp x)) * ulp x)"

text \<open>
  The arithmetic operators \<open>+\<close>, \<open>-\<close>, \<open>*\<close>, \<open>/\<close> of the program.  No division
  in the functions below has a zero divisor.
\<close>

definition fadd :: "real \<Rightarrow> real \<Rightarrow> real" where
  "fadd a b = double (a + b)"

definition fsub :: "real \<Rightarrow> real \<Rightarrow> real" where
  "fsub a b = double (a - b)"

definition fmul :: "real \<Rightarrow> real \<Rightarrow> real" where
  "fmul a b = double (a * b)"

definition fdiv :: "real \<Rightarrow> real \<Rightarrow> real" where
  "fdiv a b = double (a / b)"

text \<open>
  The unit roundoff \<open>2 ^ -53\<close>: the relative error of one rounding in the normal range.
\<close>

definition unitRoundoff :: real where
  "unitRoundoff = 2 powi (- 53)"

subsection \<open>Lighting layout and metrics in binary64\<close>

text \<open>
  \<open>profilePositions\<close> of src/components/WarehouseCanvas.tsx and the metrics block of
  \<open>drawScene2D\<close> and \<open>getMetrics\<close>, line by line as above, with every number read
  and every operation rounded.
\<close>

definition axisLimit_f64 :: "ProjectData \<Rightarrow> real" where
  "axisLimit_f64 data =
     double (if l_orientation (lighting data) = Longitudinal then data_width data
             else data_length data)"

definition profilePositions_f64 :: "ProjectData \<Rightarrow> real list" where
  "profilePositions_f64 data =
     (let value = double (l_value (lighting data));
          offset = double (l_offset (lighting data))
      in if l_mode (lighting data) = Quantity then
           (if value \<ge> 1 then
              (if value = 1 then [fdiv (axisLimit_f64 data) 2]
               else
                 (let availableSpace = fsub (axisLimit_f64 data) (fmul offset 2);
                      step = fdiv availableSpace (fsub value 1)
                  in forLoop value (\<lambda>i. fadd offset (fmul (real i) step)) 0 []))
            else [])
         else
           (if value > double 0.01 then
              (let available = fsub (axisLimit_f64 data) (fmul offset 2)
               in if available \<ge> 0 then
                    (let intervals = \<lfloor>fdiv available value\<rfloor>;
                         count = intervals + 1
                     in if count > 0 then
                          (let span = fmul (real_of_int intervals) value;
                               start = fadd offset (fdiv (fsub available span) 2)
                           in forLoop (real_of_int count)
                                (\<lambda>i. fadd start (fmul (real i) value)) 0 [])
                        else [])
                  else [])
            else []))"

definition getMetrics_f64 :: "ProjectData \<Rightarrow> real \<Rightarrow> real \<Rightarrow> Transform \<Rightarrow> Metrics" where
  "getMetrics_f64 data width height currentTransform =
     (let availableWidth = fsub (double width) (fmul padding 2);
          availableHeight = fsub (double height) (fmul padding 2);
          baseScaleX = fdiv availableWidth (orOne (double (data_width data)));
          baseScaleY = fdiv availableHeight (orOne (double (data_length data)));
          baseScale = min baseScaleX baseScaleY;
          finalScale = fmul baseScale (double (t_scale currentTransform));
          drawWidth = fmul (double (data_width data)) finalScale;
          drawLength = fmul (double (data_length data)) finalScale;
          originX = fadd (fdiv (fsub (double width) drawWidth) 2) (double (t_x currentTransform));
          originY = fadd (fdiv (fsub (double height) drawLength) 2) (double (t_y currentTransform))
      in \<lparr> m_scale = finalScale, m_originX = originX, m_originY = originY,
           m_drawWidth = drawWidth, m_drawLength = drawLength \<rparr>)"

text \<open>
  Inputs on which rounding shows: a 10 m axis with offset 3.2 and spacing 3.6; a 21 m axis
  with 20 profiles and no offset; a 21 by 10 metre site.
\<close>

definition exampleRounding :: ProjectData where
  "exampleRounding =
     exampleDistance\<lparr> data_width := 10,
       lighting := (lighting exampleDistance)\<lparr> l_value := 3.6, l_offset := 3.2 \<rparr> \<rparr>"

definition exampleOvershoot :: ProjectData where
  "exampleOvershoot =
     exampleDistance\<lparr> data_width := 21,
       lighting := (lighting exampleDistance)\<lparr> l_mode := Quantity, l_value := 20, l_offset := 0 \<rparr> \<rparr>"

definition exampleFit :: ProjectData where
  "exampleFit = exampleDistance\<lparr> data_width := 21, data_length := 10 \<rparr>"

section \<open>Binary64 arithmetic: verified properties\<close>

text \<open>
  Rounding keeps the sign, and moves a number by at most half a unit in the last place.
\<close>

lemma roundHalfEven_nonneg: "0 \<le> q \<Longrightarrow> 0 \<le> roundHalfEven q"
  by (auto simp: roundHalfEven_def Let_def)

lemma roundHalfEven_err: "\<bar>real_of_int (roundHalfEven q) - q\<bar> \<le> 1 / 2"
proof -
  have "real_of_int \<lfloor>q\<rfloor> \<le> q" "q < real_of_int \<lfloor>q\<rfloor> + 1" by linarith+
  then show ?thesis by (auto simp: roundHalfEven_def Let_def abs_le_iff)
qed

lemma ulp_pos: "0 < ulp x"
  by (simp add: ulp_def)

lemma double_nonneg: "0 \<le> x \<Longrightarrow> 0 \<le> double x"
  using ulp_pos [of x] by (simp add: double_def roundHalfEven_nonneg)

lemma double_err: "\<bar>double x - x\<bar> \<le> ulp x / 2"
proof (cases "x = 0")
  case True
  then show ?thesis using ulp_pos [of x] by (simp add: double_def)
next
  case False
  have p: "0 < ulp x" by (rule ulp_pos)
  have "double x - x = (real_of_int (roundHalfEven (x / ulp x)) - x / ulp x) * ulp x"
    using False p by (simp add: double_def field_simps)
  then have "\<bar>double x - x\<bar> = \<bar>real_of_int (roundHalfEven (x / ulp x)) - x / ulp x\<bar> * ulp x"
    using p by (simp add: abs_mult)
  also have "\<dots> \<le> (1 / 2) * ulp x"
    using roundHalfEven_err [of "x / ulp x"] p by (intro mult_right_mono) simp_all
  finally show ?thesis by simp
qed

text \<open>
  The exponent found by the search is a lower bound, so in the normal range one rounding
  has relative error at most the unit roundoff.
\<close>

lemma expoUp_le: "1 \<le> x \<Longrightarrow> 2 powi expoUp x \<le> x"
proof (induction x rule: expoUp.induct)
  case (1 x)
  show ?case
  proof (cases "2 \<le> x")
    case True
    then have "2 powi expoUp (x / 2) \<le> x / 2" using 1 by simp
    then have "2 powi (expoUp (x / 2) + 1) \<le> x" by (simp add: power_int_add)
    then show ?thesis using True by (simp add: expoUp.simps [of x])
  next
    case False
    then show ?thesis using 1(2) by (simp add: expoUp.simps [of x])
  qed
qed

lemma expoDown_le: "0 < x \<Longrightarrow> x < 1 \<Longrightarrow> 2 powi expoDown x \<le> x"
proof (induction x rule: expoDown.induct)
  case (1 x)
  have e: "expoDown x = expoDown (x * 2) - 1"
    using 1(2,3) by (simp add: expoDown.simps [of x])
  show ?case
  proof (cases "x * 2 < 1")
    case True
    then have "2 powi expoDown (x * 2) \<le> x * 2" using 1 by simp
    then show ?thesis by (simp add: e power_int_diff)
  next
    case False
    then have "expoDown (x * 2) = 0" by (simp add: expoDown.simps [of "x * 2"])
    then show ?thesis using False by (simp add: e power_int_diff)
  qed
qed

lemma expo_le: "0 < x \<Longrightarrow> 2 powi expo x \<le> x"
  using expoUp_le [of x] expoDown_le [of x] by (simp add: expo_def)

lemma ulp_le:
  assumes "2 powi (- 1022) \<le> \<bar>x\<bar>"
  shows "ulp x \<le> 2 * unitRoundoff * \<bar>x\<bar>"
proof -
  have pos: "0 < \<bar>x\<bar>" using assms by (smt (verit) zero_less_power_int)
  have "(2::real) powi (1 + - 53) = 2 powi 1 * 2 powi (- 53)"
    by (rule power_int_add) simp
  then have u: "2 * unitRoundoff = 2 powi (- 52)"
    by (simp add: unitRoundoff_def)
  have p: "(0::real) \<le> 2 powi (- 52)" by simp
  have "ulp x \<le> \<bar>x\<bar> * 2 powi (- 52)"
  proof (cases "expo \<bar>x\<bar> \<ge> - 1022")
    case True
    then have "ulp x = 2 powi (expo \<bar>x\<bar> + - 52)"
      by (simp add: ulp_def max_def)
    also have "\<dots> = 2 powi expo \<bar>x\<bar> * 2 powi (- 52)"
      by (rule power_int_add) simp
    also have "\<dots> \<le> \<bar>x\<bar> * 2 powi (- 52)"
      using expo_le [OF pos] p by (rule mult_right_mono)
    finally show ?thesis .
  next
    case False
    then have "ulp x = 2 powi (- 1022 + - 52)"
      by (simp add: ulp_def max_def)
    also have "\<dots> = 2 powi (- 1022) * 2 powi (- 52)"
      by (rule power_int_add) simp
    also have "\<dots> \<le> \<bar>x\<bar> * 2 powi (- 52)"
      using assms p by (rule mult_right_mono)
    finally show ?thesis .
  qed
  then have "ulp x \<le> \<bar>x\<bar> * (2 * unitRoundoff)" by (simp only: u)
  then show ?thesis by (simp only: mult.commute)
qed

lemma double_rel:
  assumes "2 powi (- 1022) \<le> x"
  shows "double x \<le> x * (1 + unitRoundoff)" and "x * (1 - unitRoundoff) \<le> double x"
proof -
  have pos: "0 < x" using assms by (smt (verit) zero_less_power_int)
  then have a: "\<bar>x\<bar> = x" by simp
  have "ulp x \<le> 2 * unitRoundoff * x" using ulp_le [of x] assms a by simp
  then have "\<bar>double x - x\<bar> \<le> unitRoundoff * x" using double_err [of x] by linarith
  then show "double x \<le> x * (1 + unitRoundoff)" and "x * (1 - unitRoundoff) \<le> double x"
    by (simp_all add: abs_le_iff algebra_simps)
qed

lemma unitRoundoff_bounds: "0 < unitRoundoff" "unitRoundoff \<le> 1 / 2"
  by (simp_all add: unitRoundoff_def power_int_minus)

lemma double_half:
  assumes "2 powi (- 1022) \<le> x"
  shows "x / 2 \<le> double x"
proof -
  have pos: "0 < x" using assms by (smt (verit) zero_less_power_int)
  have "x * (1 / 2) \<le> x * (1 - unitRoundoff)"
    using pos unitRoundoff_bounds(2) by (intro mult_left_mono) simp_all
  also have "\<dots> \<le> double x" by (rule double_rel(2) [OF assms])
  finally show ?thesis by simp
qed

text \<open>
  The exponent search is exact on both sides, so a binary64 value rounds to itself: a
  record field that already holds a binary64 value is read unchanged.
\<close>

lemma roundHalfEven_int: "roundHalfEven (real_of_int k) = k"
  by (simp add: roundHalfEven_def Let_def)

lemma roundHalfEven_le: "q \<le> real_of_int n \<Longrightarrow> roundHalfEven q \<le> n"
proof -
  assume a: "q \<le> real_of_int n"
  have f: "\<lfloor>q\<rfloor> \<le> n" using a by linarith
  show ?thesis
  proof (cases "\<lfloor>q\<rfloor> = n")
    case True
    then have "q = real_of_int n" using a by linarith
    then show ?thesis by (simp add: roundHalfEven_int)
  next
    case False
    then have "\<lfloor>q\<rfloor> + 1 \<le> n" using f by linarith
    then show ?thesis by (auto simp: roundHalfEven_def Let_def)
  qed
qed

lemma roundHalfEven_ge: "real_of_int n \<le> q \<Longrightarrow> n \<le> roundHalfEven q"
proof -
  assume a: "real_of_int n \<le> q"
  then have "n \<le> \<lfloor>q\<rfloor>" by (simp add: le_floor_iff)
  then show ?thesis by (auto simp: roundHalfEven_def Let_def)
qed

lemma expoUp_gt: "1 \<le> x \<Longrightarrow> x < 2 powi (expoUp x + 1)"
proof (induction x rule: expoUp.induct)
  case (1 x)
  show ?case
  proof (cases "2 \<le> x")
    case True
    then have "x / 2 < 2 powi (expoUp (x / 2) + 1)" using 1 by simp
    then have "x < 2 powi (expoUp (x / 2) + 1) * 2" by simp
    also have "\<dots> = 2 powi (expoUp (x / 2) + 1 + 1)"
      using power_int_add [of "2::real" "expoUp (x / 2) + 1" 1] by simp
    finally show ?thesis using True by (simp add: expoUp.simps [of x])
  next
    case False
    then show ?thesis by (simp add: expoUp.simps [of x])
  qed
qed

lemma expoDown_gt: "0 < x \<Longrightarrow> x < 1 \<Longrightarrow> x < 2 powi (expoDown x + 1)"
proof (induction x rule: expoDown.induct)
  case (1 x)
  have e: "expoDown x = expoDown (x * 2) - 1"
    using 1(2,3) by (simp add: expoDown.simps [of x])
  show ?case
  proof (cases "x * 2 < 1")
    case True
    then have "x * 2 < 2 powi (expoDown (x * 2) + 1)" using 1 by simp
    also have "\<dots> = 2 powi (expoDown (x * 2)) * 2"
      using power_int_add [of "2::real" "expoDown (x * 2)" 1] by simp
    finally show ?thesis by (simp add: e)
  next
    case False
    then have "expoDown (x * 2) = 0" by (simp add: expoDown.simps [of "x * 2"])
    then show ?thesis using 1(3) by (simp add: e)
  qed
qed

lemma expo_gt: "0 < x \<Longrightarrow> x < 2 powi (expo x + 1)"
  using expoUp_gt [of x] expoDown_gt [of x] by (simp add: expo_def)

lemma powi_less_cancel: "(2::real) powi a < 2 powi b \<Longrightarrow> a < b"
proof (rule ccontr)
  assume l: "(2::real) powi a < 2 powi b" and n: "\<not> a < b"
  then have "(2::real) powi b \<le> 2 powi a" by (intro power_int_increasing) simp_all
  with l show False by linarith
qed

lemma powi_le_cancel: "(2::real) powi a \<le> 2 powi b \<Longrightarrow> a \<le> b"
proof (rule ccontr)
  assume l: "(2::real) powi a \<le> 2 powi b" and n: "\<not> a \<le> b"
  then have "(2::real) powi b < 2 powi a" by (intro power_int_strict_increasing) simp_all
  with l show False by linarith
qed

lemma powi_mono: "a \<le> b \<Longrightarrow> (2::real) powi a \<le> 2 powi b"
  by (simp add: power_int_increasing)

lemma expo_less: "0 < z \<Longrightarrow> z < 2 powi j \<Longrightarrow> expo z < j"
proof -
  assume z: "0 < z" and l: "z < 2 powi j"
  have "2 powi expo z \<le> z" by (rule expo_le [OF z])
  then have "(2::real) powi expo z < 2 powi j" using l by linarith
  then show ?thesis by (rule powi_less_cancel)
qed

lemma expo_powi: "expo (2 powi j) = j"
proof -
  have p: "(0::real) < 2 powi j" by simp
  have "(2::real) powi expo (2 powi j) \<le> 2 powi j" by (rule expo_le [OF p])
  then have a: "expo (2 powi j) \<le> j" by (rule powi_le_cancel)
  have "(2::real) powi j < 2 powi (expo (2 powi j) + 1)" by (rule expo_gt [OF p])
  then have "j < expo (2 powi j) + 1" by (rule powi_less_cancel)
  then show ?thesis using a by linarith
qed

lemma double_fixed: "y = real_of_int k * ulp y \<Longrightarrow> double y = y"
proof -
  assume a: "y = real_of_int k * ulp y"
  have p: "0 < ulp y" by (rule ulp_pos)
  have "y / ulp y = real_of_int k" using a p by (metis nonzero_mult_div_cancel_right less_irrefl)
  then show ?thesis using a by (simp add: double_def roundHalfEven_int)
qed

lemma double_zero: "double 0 = 0"
  by (simp add: double_def)

lemma double_idem: "double (double x) = double x"
proof (cases "x = 0")
  case True
  then show ?thesis by (simp add: double_zero)
next
  case False
  define e where "e = max (expo \<bar>x\<bar>) (- 1022)"
  define p where "p = (2::real) powi (e - 52)"
  define m where "m = roundHalfEven (x / p)"
  define y where "y = real_of_int m * p"
  have ux: "ulp x = p" by (simp add: ulp_def p_def e_def)
  have yx: "double x = y" using False by (simp add: double_def ux y_def m_def)
  have ppos: "0 < p" by (simp add: p_def)
  have e1022: "- 1022 \<le> e" by (simp add: e_def)
  have xpos: "0 < \<bar>x\<bar>" using False by simp
  have "\<bar>x\<bar> < 2 powi (expo \<bar>x\<bar> + 1)" by (rule expo_gt [OF xpos])
  also have "\<dots> \<le> 2 powi (e + 1)" by (rule powi_mono) (simp add: e_def)
  finally have xlt: "\<bar>x\<bar> < 2 powi (e + 1)" .
  have "(2::real) powi (53 + (e - 52)) = 2 powi 53 * 2 powi (e - 52)"
    by (rule power_int_add) simp
  then have top: "(2::real) powi (e + 1) = 2 ^ 53 * p"
    by (simp add: p_def add.commute)
  have "\<bar>x / p\<bar> = \<bar>x\<bar> / p" using ppos by simp
  also have "\<dots> < 2 ^ 53"
  proof -
    from xlt have "\<bar>x\<bar> < 2 ^ 53 * p" by (simp only: top)
    then show ?thesis using ppos by (simp only: pos_divide_less_eq)
  qed
  finally have qb: "\<bar>x / p\<bar> < 2 ^ 53" .
  have q1: "x / p \<le> 2 ^ 53" and q2: "- (2 ^ 53) \<le> x / p" using qb by linarith+
  have "x / p \<le> real_of_int (2 ^ 53)" using q1 by simp
  then have mu: "m \<le> 2 ^ 53" unfolding m_def by (rule roundHalfEven_le)
  have "real_of_int (- (2 ^ 53)) \<le> x / p" using q2 by simp
  then have ml: "- (2 ^ 53) \<le> m" unfolding m_def by (rule roundHalfEven_ge)
  have "double y = y"
  proof (cases "y = 0")
    case True
    then show ?thesis by (simp add: double_zero)
  next
    case ynz: False
    then have mnz: "m \<noteq> 0" by (auto simp: y_def)
    have ay: "\<bar>y\<bar> = real_of_int \<bar>m\<bar> * p" using ppos by (simp add: y_def abs_mult)
    show ?thesis
    proof (cases "\<bar>m\<bar> = 2 ^ 53")
      case True
      then have "\<bar>y\<bar> = 2 powi (e + 1)" by (simp add: ay top)
      then have "expo \<bar>y\<bar> = e + 1" by (simp add: expo_powi)
      then have "ulp y = 2 powi (1 + (e - 52))"
        using e1022 by (simp add: ulp_def max_def add.commute)
      also have "\<dots> = 2 powi 1 * 2 powi (e - 52)" by (rule power_int_add) simp
      finally have uy: "ulp y = 2 * p" by (simp add: p_def)
      have "even \<bar>m\<bar>" by (simp add: True)
      then have "even m" by (cases "m < 0") (simp_all add: abs_if)
      then have "m = 2 * (m div 2)" by simp
      then have h: "real_of_int m = 2 * real_of_int (m div 2)" by (metis of_int_mult of_int_numeral)
      have a2: "real_of_int m * p = real_of_int (m div 2) * (2 * p)" by (simp add: h)
      have a3: "real_of_int (m div 2) * (2 * p) = real_of_int (m div 2) * ulp y"
        by (rule arg_cong [OF uy [symmetric]])
      have "y = real_of_int (m div 2) * ulp y"
        by (rule trans [OF y_def trans [OF a2 a3]])
      then show ?thesis by (rule double_fixed)
    next
      case False
      then have "\<bar>m\<bar> < 2 ^ 53" using mu ml by linarith
      then have "real_of_int \<bar>m\<bar> < real_of_int (2 ^ 53)" by (simp only: of_int_less_iff)
      then have "real_of_int \<bar>m\<bar> < 2 ^ 53" by simp
      then have "\<bar>y\<bar> < 2 ^ 53 * p" using ppos by (simp add: ay)
      then have ylt: "\<bar>y\<bar> < 2 powi (e + 1)" by (simp add: top)
      have "0 < \<bar>y\<bar>" using ynz by simp
      then have "expo \<bar>y\<bar> < e + 1" using ylt by (rule expo_less)
      then have kle: "max (expo \<bar>y\<bar>) (- 1022) \<le> e" using e1022 by simp
      define k where "k = max (expo \<bar>y\<bar>) (- 1022)"
      define d where "d = nat (e - k)"
      have uy: "ulp y = 2 powi (k - 52)" by (simp add: ulp_def k_def)
      have "(2::real) powi (int d + (k - 52)) = 2 powi (int d) * 2 powi (k - 52)"
        by (rule power_int_add) simp
      moreover have "int d + (k - 52) = e - 52" using kle by (simp add: d_def k_def)
      ultimately have pd: "p = 2 ^ d * ulp y" by (simp add: p_def uy)
      have b2: "real_of_int m * p = real_of_int m * (2 ^ d * ulp y)"
        by (rule arg_cong [OF pd])
      have b3: "real_of_int m * (2 ^ d * ulp y) = real_of_int (m * 2 ^ d) * ulp y" by simp
      have "y = real_of_int (m * 2 ^ d) * ulp y"
        by (rule trans [OF y_def trans [OF b2 b3]])
      then show ?thesis by (rule double_fixed)
    qed
  qed
  then show ?thesis by (simp add: yx)
qed

lemma min_double_fixed: "double (min (double x) (double y)) = min (double x) (double y)"
  by (simp add: min_def double_idem)

section \<open>Lighting layout: verified properties\<close>

text \<open>
  The counting loop pushes \<open>f i\<close> for every natural \<open>i\<close> below the bound.
\<close>

lemma forLoop_map: "forLoop n f i acc = acc @ map f [i..<nat \<lceil>n\<rceil>]"
proof (induction n f i acc rule: forLoop.induct)
  case (1 n f i acc)
  show ?case
  proof (cases "real i < n")
    case True
    then have "i < nat \<lceil>n\<rceil>" by linarith
    then have "[i..<nat \<lceil>n\<rceil>] = i # [Suc i..<nat \<lceil>n\<rceil>]" by (simp add: upt_conv_Cons)
    with True 1 show ?thesis by (simp add: forLoop.simps [of n f i acc])
  next
    case False
    then have "nat \<lceil>n\<rceil> \<le> i" by linarith
    with False show ?thesis by (simp add: forLoop.simps [of n f i acc])
  qed
qed

text \<open>
  Claim C1, as amended.  In distance mode, in the arithmetic of the program: with
  \<open>available = axisLimit - offset * 2\<close>, \<open>intervals = floor (available / value)\<close>,
  \<open>span = intervals * value\<close> and \<open>start = offset + (available - span) / 2\<close>, every
  operation rounded to binary64, the profile positions are \<open>start + i * value\<close> for
  \<open>i = 0..intervals\<close> when \<open>value > 0.01\<close> and \<open>available \<ge> 0\<close>, and there are none
  when \<open>value \<le> 0.01\<close> or \<open>available < 0\<close>.  \<open>profilePositions\<close> is the list computed
  inside the block that runs when lighting is active.
\<close>

theorem distance_mode_positions:
  assumes "l_mode (lighting data) = Distance"
  shows "let value = double (l_value (lighting data));
             offset = double (l_offset (lighting data));
             axisLim = double (if l_orientation (lighting data) = Longitudinal
                               then data_width data else data_length data);
             available = fsub axisLim (fmul offset 2);
             intervals = \<lfloor>fdiv available value\<rfloor>;
             span = fmul (real_of_int intervals) value;
             start = fadd offset (fdiv (fsub available span) 2)
         in (value > double 0.01 \<and> available \<ge> 0 \<longrightarrow>
               profilePositions_f64 data =
                 map (\<lambda>i. fadd start (fmul (real i) value)) [0..<Suc (nat intervals)])
          \<and> (value \<le> double 0.01 \<or> available < 0 \<longrightarrow> profilePositions_f64 data = [])"
proof -
  define v where "v = double (l_value (lighting data))"
  define off where "off = double (l_offset (lighting data))"
  define available where "available = fsub (axisLimit_f64 data) (fmul off 2)"
  define intervals where "intervals = \<lfloor>fdiv available v\<rfloor>"
  have empty: "profilePositions_f64 data = []" if "v \<le> double 0.01 \<or> available < 0"
    using that assms
    by (auto simp: profilePositions_f64_def Let_def v_def off_def available_def)
  have full: "profilePositions_f64 data =
      map (\<lambda>i. fadd (fadd off (fdiv (fsub available (fmul (real_of_int intervals) v)) 2))
                    (fmul (real i) v))
          [0..<Suc (nat intervals)]"
    if "v > double 0.01" "available \<ge> 0"
  proof -
    have "0 \<le> double 0.01" by (rule double_nonneg) simp
    then have "0 < v" using that(1) by linarith
    then have "0 \<le> available / v" using that(2) by simp
    then have "0 \<le> fdiv available v" unfolding fdiv_def by (rule double_nonneg)
    then have nn: "0 \<le> intervals" by (simp add: intervals_def)
    then have cnt: "nat \<lceil>real_of_int (intervals + 1)\<rceil> = Suc (nat intervals)"
      by (simp add: nat_add_distrib)
    have "profilePositions_f64 data =
        forLoop (real_of_int (intervals + 1))
          (\<lambda>i. fadd (fadd off (fdiv (fsub available (fmul (real_of_int intervals) v)) 2))
                      (fmul (real i) v)) 0 []"
      using that assms nn
      by (simp add: profilePositions_f64_def Let_def v_def off_def available_def intervals_def)
    then show ?thesis by (simp only: forLoop_map cnt append_Nil)
  qed
  show ?thesis
    using empty full
    by (simp add: Let_def v_def off_def available_def intervals_def axisLimit_f64_def)
qed

text \<open>
  Claim C1, the worked example: \<open>axisLimit = 20\<close>, \<open>offset = 2\<close>, \<open>value = 5\<close> gives
  exactly the positions 2.5, 7.5, 12.5, 17.5.
\<close>

theorem distance_mode_positions_witness:
  "l_mode (lighting exampleDistance) = Distance
   \<and> l_orientation (lighting exampleDistance) = Longitudinal
   \<and> data_width exampleDistance = 20
   \<and> l_offset (lighting exampleDistance) = 2
   \<and> l_value (lighting exampleDistance) = 5
   \<and> double 5 > double 0.01
   \<and> fsub (double 20) (fmul (double 2) 2) \<ge> 0
   \<and> profilePositions_f64 exampleDistance = [2.5, 7.5, 12.5, 17.5]"
proof -
  have r0: "double (0) = 0"
    by (simp add: double_def ulp_def expo_def expoUp.simps expoDown.simps roundHalfEven_def Let_def)
  have r1: "double (1 / 100) = 5764607523034235 / 576460752303423488"
    by (simp add: double_def ulp_def expo_def expoUp.simps expoDown.simps roundHalfEven_def Let_def)
  have r2: "double (1 / 2) = 1 / 2"
    by (simp add: double_def ulp_def expo_def expoUp.simps expoDown.simps roundHalfEven_def Let_def)
  have r3: "double (1) = 1"
    by (simp add: double_def ulp_def expo_def expoUp.simps expoDown.simps roundHalfEven_def Let_def)
  have r4: "double (2) = 2"
    by (simp add: double_def ulp_def expo_def expoUp.simps expoDown.simps roundHalfEven_def Let_def)
  have r5: "double (5 / 2) = 5 / 2"
    by (simp add: double_def ulp_def expo_def expoUp.simps expoDown.simps roundHalfEven_def Let_def)
  have r6: "double (16 / 5) = 3602879701896397 / 1125899906842624"
    by (simp add: double_def ulp_def expo_def expoUp.simps expoDown.simps roundHalfEven_def Let_def)
  have r7: "double (4) = 4"
    by (simp add: double_def ulp_def expo_def expoUp.simps expoDown.simps roundHalfEven_def Let_def)
  have r8: "double (5) = 5"
    by (simp add: double_def ulp_def expo_def expoUp.simps expoDown.simps roundHalfEven_def Let_def)
  have r9: "double (15 / 2) = 15 / 2"
    by (simp add: double_def ulp_def expo_def expoUp.simps expoDown.simps roundHalfEven_def Let_def)
  have r10: "double (10) = 10"
    by (simp add: double_def ulp_def expo_def expoUp.simps expoDown.simps roundHalfEven_def Let_def)
  have r11: "double (25 / 2) = 25 / 2"
    by (simp add: double_def ulp_def expo_def expoUp.simps expoDown.simps roundHalfEven_def Let_def)
  have r12: "double (15) = 15"
    by (simp add: double_def ulp_def expo_def expoUp.simps expoDown.simps roundHalfEven_def Let_def)
  have r13: "double (16) = 16"
    by (simp add: double_def ulp_def expo_def expoUp.simps expoDown.simps roundHalfEven_def Let_def)
  have r14: "double (35 / 2) = 35 / 2"
    by (simp add: double_def ulp_def expo_def expoUp.simps expoDown.simps roundHalfEven_def Let_def)
  have r15: "double (20) = 20"
    by (simp add: double_def ulp_def expo_def expoUp.simps expoDown.simps roundHalfEven_def Let_def)
  have m: "l_mode (lighting exampleDistance) = Distance"
    by (simp add: exampleDistance_def)
  show ?thesis
    using distance_mode_positions [OF m]
    by (simp add: exampleDistance_def fadd_def fsub_def fmul_def fdiv_def Let_def
          eval_nat_numeral r0 r1 r2 r3 r4 r5 r6 r7 r8 r9 r10 r11 r12 r13 r14 r15)
qed

text \<open>
  Claim C1 as stated, over exact arithmetic, gives one interval and the positions 3.2 and
  6.8 for \<open>axisLimit = 10\<close>, \<open>offset = 3.2\<close>, \<open>value = 3.6\<close>.  The program computes
  \<open>10 - 6.4 = 3.5999999999999996\<close>, a quotient below 1, no interval, and the single
  position 5.
\<close>

theorem distance_mode_counterexample:
  "l_mode (lighting exampleRounding) = Distance
   \<and> l_orientation (lighting exampleRounding) = Longitudinal
   \<and> data_width exampleRounding = 10
   \<and> l_offset (lighting exampleRounding) = 3.2
   \<and> l_value (lighting exampleRounding) = 3.6
   \<and> (3.6 :: real) > 0.01 \<and> (10 :: real) - 2 * 3.2 \<ge> 0
   \<and> \<lfloor>((10 :: real) - 2 * 3.2) / 3.6\<rfloor> = 1
   \<and> (3.2 :: real) + ((10 - 2 * 3.2) - 1 * 3.6) / 2 = 3.2
   \<and> profilePositions_f64 exampleRounding = [5]
   \<and> profilePositions_f64 exampleRounding \<noteq> [3.2 + 0 * 3.6, 3.2 + 1 * 3.6]"
proof -
  have r0: "double (0) = 0"
    by (simp add: double_def ulp_def expo_def expoUp.simps expoDown.simps roundHalfEven_def Let_def)
  have r1: "double (1 / 100) = 5764607523034235 / 576460752303423488"
    by (simp add: double_def ulp_def expo_def expoUp.simps expoDown.simps roundHalfEven_def Let_def)
  have r2: "double (8106479329266892 / 8106479329266893) = 9007199254740991 / 9007199254740992"
    by (simp add: double_def ulp_def expo_def expoUp.simps expoDown.simps roundHalfEven_def Let_def)
  have r3: "double (2026619832316723 / 1125899906842624) = 2026619832316723 / 1125899906842624"
    by (simp add: double_def ulp_def expo_def expoUp.simps expoDown.simps roundHalfEven_def Let_def)
  have r4: "double (16 / 5) = 3602879701896397 / 1125899906842624"
    by (simp add: double_def ulp_def expo_def expoUp.simps expoDown.simps roundHalfEven_def Let_def)
  have r5: "double (2026619832316723 / 562949953421312) = 2026619832316723 / 562949953421312"
    by (simp add: double_def ulp_def expo_def expoUp.simps expoDown.simps roundHalfEven_def Let_def)
  have r6: "double (18 / 5) = 8106479329266893 / 2251799813685248"
    by (simp add: double_def ulp_def expo_def expoUp.simps expoDown.simps roundHalfEven_def Let_def)
  have r7: "double (5) = 5"
    by (simp add: double_def ulp_def expo_def expoUp.simps expoDown.simps roundHalfEven_def Let_def)
  have r8: "double (3602879701896397 / 562949953421312) = 3602879701896397 / 562949953421312"
    by (simp add: double_def ulp_def expo_def expoUp.simps expoDown.simps roundHalfEven_def Let_def)
  have r9: "double (10) = 10"
    by (simp add: double_def ulp_def expo_def expoUp.simps expoDown.simps roundHalfEven_def Let_def)
  have p: "profilePositions_f64 exampleRounding = [5]"
    by (simp add: profilePositions_f64_def axisLimit_f64_def exampleRounding_def
          exampleDistance_def fadd_def fsub_def fmul_def fdiv_def Let_def forLoop_map
          eval_nat_numeral r0 r1 r2 r3 r4 r5 r6 r7 r8 r9)
  show ?thesis
    by (simp add: p) (simp add: exampleRounding_def exampleDistance_def)
qed




text \<open>
  Rounding can carry the last position past \<open>axisLimit - offset\<close>: 20 profiles on a
  21 m axis without offset end at 21.000000000000004, which is beyond \<open>axisLimit\<close>.
\<close>

lemma quantity_last_overshoots:
  "axisLimit_f64 exampleOvershoot = 21
   \<and> length (profilePositions_f64 exampleOvershoot) = 20
   \<and> last (profilePositions_f64 exampleOvershoot) = 21 + 1 / 2 ^ 48
   \<and> last (profilePositions_f64 exampleOvershoot) > axisLimit_f64 exampleOvershoot"
proof -
  have r0: "double (0) = 0"
    by (simp add: double_def ulp_def expo_def expoUp.simps expoDown.simps roundHalfEven_def Let_def)
  have r1: "double (21 / 19) = 4977662746041075 / 4503599627370496"
    by (simp add: double_def ulp_def expo_def expoUp.simps expoDown.simps roundHalfEven_def Let_def)
  have r2: "double (19) = 19"
    by (simp add: double_def ulp_def expo_def expoUp.simps expoDown.simps roundHalfEven_def Let_def)
  have r3: "double (20) = 20"
    by (simp add: double_def ulp_def expo_def expoUp.simps expoDown.simps roundHalfEven_def Let_def)
  have r4: "double (21) = 21"
    by (simp add: double_def ulp_def expo_def expoUp.simps expoDown.simps roundHalfEven_def Let_def)
  have r5: "double (94575592174780425 / 4503599627370496) = 5910974510923777 / 281474976710656"
    by (simp add: double_def ulp_def expo_def expoUp.simps expoDown.simps roundHalfEven_def Let_def)
  have r6: "double (5910974510923777 / 281474976710656) = 5910974510923777 / 281474976710656"
    by (simp add: double_def ulp_def expo_def expoUp.simps expoDown.simps roundHalfEven_def Let_def)
  have l: "last [0..<20] = 19" by (simp add: eval_nat_numeral)
  have a: "axisLimit_f64 exampleOvershoot = 21"
    by (simp add: axisLimit_f64_def exampleOvershoot_def exampleDistance_def r0 r1 r2 r3 r4 r5 r6)
  have n: "length (profilePositions_f64 exampleOvershoot) = 20"
    by (simp add: profilePositions_f64_def axisLimit_f64_def exampleOvershoot_def
          exampleDistance_def Let_def forLoop_map r0 r1 r2 r3 r4 r5 r6)
  have v: "last (profilePositions_f64 exampleOvershoot) = 21 + 1 / 2 ^ 48"
    by (simp add: profilePositions_f64_def axisLimit_f64_def exampleOvershoot_def
          exampleDistance_def fadd_def fsub_def fmul_def fdiv_def Let_def forLoop_map
          last_map l r0 r1 r2 r3 r4 r5 r6)
  show ?thesis by (simp add: a n v)
qed

text \<open>
  Claim C6.  The legacy and the current renderer compute the same profile positions in
  quantity mode for every input; in distance mode they differ on \<open>axisLimit = 20\<close>,
  \<open>offset = 2\<close>, \<open>value = 5\<close>, where the legacy stepping gives 2, 7, 12, 17 and the
  centred placement gives 2.5, 7.5, 12.5, 17.5.
\<close>

theorem legacy_and_current_lighting:
  "(l_mode (lighting data) = Quantity \<longrightarrow> legacyProfilePositions data = profilePositions data)
   \<and> l_mode (lighting exampleDistance) = Distance
   \<and> axisLimit exampleDistance = 20
   \<and> l_offset (lighting exampleDistance) = 2
   \<and> l_value (lighting exampleDistance) = 5
   \<and> legacyProfilePositions exampleDistance = [2, 7, 12, 17]
   \<and> profilePositions exampleDistance = [2.5, 7.5, 12.5, 17.5]
   \<and> legacyProfilePositions exampleDistance \<noteq> profilePositions exampleDistance"
proof -
  have q: "l_mode (lighting data) = Quantity \<longrightarrow> legacyProfilePositions data = profilePositions data"
    by (simp add: legacyProfilePositions_def profilePositions_def Let_def)
  have l: "legacyProfilePositions exampleDistance = [2, 7, 12, 17]"
    by (simp add: legacyProfilePositions_def exampleDistance_def axisLimit_def Let_def
          legacyLoop.simps)
  have c: "profilePositions exampleDistance = [2.5, 7.5, 12.5, 17.5]"
    by (simp add: profilePositions_def exampleDistance_def axisLimit_def Let_def
          forLoop_map eval_nat_numeral)
  show ?thesis
    using q l c by (simp add: exampleDistance_def axisLimit_def)
qed

text \<open>
  Claim C6 at a quantity-mode input.
\<close>

theorem legacy_and_current_lighting_witness:
  "l_mode (lighting exampleQuantity) = Quantity
   \<and> legacyProfilePositions exampleQuantity = profilePositions exampleQuantity"
  using legacy_and_current_lighting [of exampleQuantity]
  by (simp add: exampleQuantity_def exampleDistance_def)

section \<open>Unit/pixel transform: verified properties\<close>

text \<open>
  The scale as a function of the viewport, the site and the zoom, over exact reals.
\<close>

lemma getMetrics_scale:
  "m_scale (getMetrics data width height tr) =
     min ((width - padding * 2) / orOne (data_width data))
         ((height - padding * 2) / orOne (data_length data)) * t_scale tr"
  by (simp add: getMetrics_def Let_def)

text \<open>
  Two roundings lie between the available extent and the drawn extent: the quotient and
  the product with the site dimension.  The product with zoom 1 is exact.
\<close>

lemma fit_chain:
  fixes a w s :: real
  assumes w: "0 < w"
      and n1: "2 powi (- 1022) \<le> a / w"
      and s: "s \<le> double (a / w)"
      and n3: "2 powi (- 1022) \<le> w * s"
  shows "double (w * s) \<le> a * (1 + unitRoundoff) ^ 2"
proof -
  define u where "u = unitRoundoff"
  have u: "0 < 1 + u" using unitRoundoff_bounds(1) by (simp add: u_def)
  have q: "double (a / w) \<le> (a / w) * (1 + u)"
    unfolding u_def by (rule double_rel(1) [OF n1])
  have "double (w * s) \<le> (w * s) * (1 + u)"
    unfolding u_def by (rule double_rel(1) [OF n3])
  also have "\<dots> \<le> (w * double (a / w)) * (1 + u)"
    using s w u by (intro mult_right_mono mult_left_mono) simp_all
  also have "\<dots> \<le> (w * ((a / w) * (1 + u))) * (1 + u)"
    using q w u by (intro mult_right_mono mult_left_mono) simp_all
  also have "\<dots> = a * (1 + u) ^ 2"
    using w by (simp add: power2_eq_square)
  finally show ?thesis by (simp add: u_def)
qed

lemma range_facts:
  fixes a w :: real
  assumes "1 / 2 ^ 100 \<le> a" and "a \<le> 2 ^ 100" and "1 / 2 ^ 100 \<le> w" and "w \<le> 2 ^ 100"
  shows "0 < w" and "1 / 2 ^ 200 \<le> a / w" and "2 powi (- 1022) \<le> a / w"
    and "1 / 2 ^ 201 \<le> double (a / w)"
proof -
  have p: "(0::real) < 1 / 2 ^ 100" by simp
  show w: "0 < w" using assms(3) p by linarith
  have "(1 / 2 ^ 100) / 2 ^ 100 \<le> a / w"
    using assms(1,4) w by (intro frac_le) simp_all
  then show q: "1 / 2 ^ 200 \<le> a / w" by simp
  have k: "(2::real) powi (- 1022) \<le> 1 / 2 ^ 200"
    by (simp add: power_int_minus field_simps)
  show n: "2 powi (- 1022) \<le> a / w" using q k by linarith
  have h: "(a / w) / 2 \<le> double (a / w)" by (rule double_half [OF n])
  have e: "(1::real) / 2 ^ 201 = (1 / 2 ^ 200) / 2" by simp
  have g: "c / 2 \<le> d" if "c \<le> r" and "r / 2 \<le> d" for c r d :: real
    using that by linarith
  show "1 / 2 ^ 201 \<le> double (a / w)" unfolding e by (rule g [OF q h])
qed

lemma fit_side:
  fixes a w b l :: real
  assumes "1 / 2 ^ 100 \<le> a" and "a \<le> 2 ^ 100" and "1 / 2 ^ 100 \<le> w" and "w \<le> 2 ^ 100"
      and "1 / 2 ^ 100 \<le> b" and "b \<le> 2 ^ 100" and "1 / 2 ^ 100 \<le> l" and "l \<le> 2 ^ 100"
  shows "double (w * min (double (a / w)) (double (b / l))) \<le> a * (1 + unitRoundoff) ^ 2"
proof -
  note ra = range_facts [OF assms(1-4)]
  note rb = range_facts [OF assms(5-8)]
  define s where "s = min (double (a / w)) (double (b / l))"
  have k301: "(2::real) powi (- 1022) \<le> 1 / 2 ^ 301"
    by (simp add: power_int_minus field_simps)
  have s201: "1 / 2 ^ 201 \<le> s" using ra(4) rb(4) by (simp add: s_def)
  have sq: "s \<le> double (a / w)" by (simp add: s_def)
  have tr: "c \<le> d" if "c \<le> r" and "r \<le> d" for c r d :: real
    using that by linarith
  have m: "(1 / 2 ^ 100) * (1 / 2 ^ 201) \<le> w * s"
    using assms(3) s201 by (intro mult_mono) simp_all
  have e301: "(1::real) / 2 ^ 301 = (1 / 2 ^ 100) * (1 / 2 ^ 201)" by simp
  have n3: "2 powi (- 1022) \<le> w * s"
    by (rule tr [OF k301 m [folded e301]])
  show ?thesis
    using fit_chain [OF ra(1) ra(3) sq n3] by (simp only: s_def)
qed

text \<open>
  Claim C7, as amended.  In the arithmetic of the program, for a site and a viewport
  whose width, length, available width \<open>pixelWidth - padding * 2\<close> and available height
  \<open>pixelHeight - padding * 2\<close> lie between \<open>2 ^ -100\<close> and \<open>2 ^ 100\<close>, at zoom 1 the
  scale is \<open>min (availableWidth / width) (availableHeight / length)\<close>, the drawn width
  and length are \<open>width * scale\<close> and \<open>length * scale\<close>, and they exceed the available
  width and height by at most two roundings: a factor \<open>(1 + 2 ^ -53) ^ 2\<close>.
\<close>

theorem fit_invariant:
  assumes "w = double (data_width data)" and "l = double (data_length data)"
      and "aw = fsub (double pixelWidth) (fmul padding 2)"
      and "ah = fsub (double pixelHeight) (fmul padding 2)"
      and "1 / 2 ^ 100 \<le> w" and "w \<le> 2 ^ 100"
      and "1 / 2 ^ 100 \<le> l" and "l \<le> 2 ^ 100"
      and "1 / 2 ^ 100 \<le> aw" and "aw \<le> 2 ^ 100"
      and "1 / 2 ^ 100 \<le> ah" and "ah \<le> 2 ^ 100"
      and "double (t_scale tr) = 1"
      and "m = getMetrics_f64 data pixelWidth pixelHeight tr"
  shows "m_scale m = min (fdiv aw w) (fdiv ah l)
       \<and> m_drawWidth m = fmul w (m_scale m)
       \<and> m_drawLength m = fmul l (m_scale m)
       \<and> m_drawWidth m \<le> aw * (1 + unitRoundoff) ^ 2
       \<and> m_drawLength m \<le> ah * (1 + unitRoundoff) ^ 2"
proof -
  have wpos: "w \<noteq> 0" and lpos: "l \<noteq> 0"
    using range_facts(1) [OF assms(9,10,5,6)] range_facts(1) [OF assms(11,12,7,8)] by simp_all
  have "m_scale m = fmul (min (fdiv aw w) (fdiv ah l)) 1"
    using wpos lpos assms(13)
    by (simp add: assms(14) getMetrics_f64_def Let_def orOne_def
          assms(1-4) [symmetric])
  then have sc: "m_scale m = min (fdiv aw w) (fdiv ah l)"
    by (simp add: fmul_def fdiv_def min_double_fixed)
  have dw: "m_drawWidth m = fmul w (m_scale m)"
    by (simp add: assms(14) getMetrics_f64_def Let_def assms(1) [symmetric])
  have dl: "m_drawLength m = fmul l (m_scale m)"
    by (simp add: assms(14) getMetrics_f64_def Let_def assms(2) [symmetric])
  have bw: "fmul w (min (fdiv aw w) (fdiv ah l)) \<le> aw * (1 + unitRoundoff) ^ 2"
    unfolding fmul_def fdiv_def
    by (rule fit_side [OF assms(9,10,5,6,11,12,7,8)])
  have "fmul l (min (fdiv ah l) (fdiv aw w)) \<le> ah * (1 + unitRoundoff) ^ 2"
    unfolding fmul_def fdiv_def
    by (rule fit_side [OF assms(11,12,7,8,9,10,5,6)])
  then have bl: "fmul l (min (fdiv aw w) (fdiv ah l)) \<le> ah * (1 + unitRoundoff) ^ 2"
    by (simp add: min.commute)
  show ?thesis
    using sc dw dl bw bl by simp
qed

text \<open>
  Claim C7 as amended, on a 20 by 30 metre site in the 900 by 700 pixel canvas of
  IndustrialApp.
\<close>

theorem fit_invariant_witness:
  "1 / 2 ^ 100 \<le> double (data_width exampleDistance)
   \<and> double (data_width exampleDistance) \<le> 2 ^ 100
   \<and> 1 / 2 ^ 100 \<le> double (data_length exampleDistance)
   \<and> double (data_length exampleDistance) \<le> 2 ^ 100
   \<and> fsub (double 900) (fmul padding 2) = 780
   \<and> fsub (double 700) (fmul padding 2) = 580
   \<and> double (t_scale defaultTransform) = 1
   \<and> m_drawWidth (getMetrics_f64 exampleDistance 900 700 defaultTransform)
        \<le> 780 * (1 + unitRoundoff) ^ 2
   \<and> m_drawLength (getMetrics_f64 exampleDistance 900 700 defaultTransform)
        \<le> 580 * (1 + unitRoundoff) ^ 2"
proof -
  have r0: "double (0) = 0"
    by (simp add: double_def ulp_def expo_def expoUp.simps expoDown.simps roundHalfEven_def Let_def)
  have r1: "double (1) = 1"
    by (simp add: double_def ulp_def expo_def expoUp.simps expoDown.simps roundHalfEven_def Let_def)
  have r2: "double (5441849549739349 / 281474976710656) = 5441849549739349 / 281474976710656"
    by (simp add: double_def ulp_def expo_def expoUp.simps expoDown.simps roundHalfEven_def Let_def)
  have r3: "double (58 / 3) = 5441849549739349 / 281474976710656"
    by (simp add: double_def ulp_def expo_def expoUp.simps expoDown.simps roundHalfEven_def Let_def)
  have r4: "double (20) = 20"
    by (simp add: double_def ulp_def expo_def expoUp.simps expoDown.simps roundHalfEven_def Let_def)
  have r5: "double (30) = 30"
    by (simp add: double_def ulp_def expo_def expoUp.simps expoDown.simps roundHalfEven_def Let_def)
  have r6: "double (39) = 39"
    by (simp add: double_def ulp_def expo_def expoUp.simps expoDown.simps roundHalfEven_def Let_def)
  have r7: "double (60) = 60"
    by (simp add: double_def ulp_def expo_def expoUp.simps expoDown.simps roundHalfEven_def Let_def)
  have r8: "double (120) = 120"
    by (simp add: double_def ulp_def expo_def expoUp.simps expoDown.simps roundHalfEven_def Let_def)
  have r9: "double (4515327751400107 / 17592186044416) = 4515327751400107 / 17592186044416"
    by (simp add: double_def ulp_def expo_def expoUp.simps expoDown.simps roundHalfEven_def Let_def)
  have r10: "double (27209247748696745 / 70368744177664) = 3401155968587093 / 8796093022208"
    by (simp add: double_def ulp_def expo_def expoUp.simps expoDown.simps roundHalfEven_def Let_def)
  have r11: "double (4515327751400107 / 8796093022208) = 4515327751400107 / 8796093022208"
    by (simp add: double_def ulp_def expo_def expoUp.simps expoDown.simps roundHalfEven_def Let_def)
  have r12: "double (81627743246090235 / 140737488355328) = 580"
    by (simp add: double_def ulp_def expo_def expoUp.simps expoDown.simps roundHalfEven_def Let_def)
  have r13: "double (580) = 580"
    by (simp add: double_def ulp_def expo_def expoUp.simps expoDown.simps roundHalfEven_def Let_def)
  have r14: "double (700) = 700"
    by (simp add: double_def ulp_def expo_def expoUp.simps expoDown.simps roundHalfEven_def Let_def)
  have r15: "double (780) = 780"
    by (simp add: double_def ulp_def expo_def expoUp.simps expoDown.simps roundHalfEven_def Let_def)
  have r16: "double (900) = 900"
    by (simp add: double_def ulp_def expo_def expoUp.simps expoDown.simps roundHalfEven_def Let_def)
  have w: "double (data_width exampleDistance) = 20" "double (data_length exampleDistance) = 30"
    by (simp_all add: exampleDistance_def r0 r1 r2 r3 r4 r5 r6 r7 r8 r9 r10 r11 r12 r13 r14 r15 r16)
  have a: "fsub (double 900) (fmul padding 2) = 780" "fsub (double 700) (fmul padding 2) = 580"
    by (simp_all add: fsub_def fmul_def padding_def r0 r1 r2 r3 r4 r5 r6 r7 r8 r9 r10 r11 r12 r13 r14 r15 r16)
  have t: "double (t_scale defaultTransform) = 1"
    by (simp add: defaultTransform_def r0 r1 r2 r3 r4 r5 r6 r7 r8 r9 r10 r11 r12 r13 r14 r15 r16)
  have h: "1 / 2 ^ 100 \<le> (20::real)" "(20::real) \<le> 2 ^ 100"
      "1 / 2 ^ 100 \<le> (30::real)" "(30::real) \<le> 2 ^ 100"
      "1 / 2 ^ 100 \<le> (780::real)" "(780::real) \<le> 2 ^ 100"
      "1 / 2 ^ 100 \<le> (580::real)" "(580::real) \<le> 2 ^ 100"
    by simp_all
  note f = fit_invariant [OF w(1) [symmetric] w(2) [symmetric] a(1) [symmetric] a(2) [symmetric]
      h t refl]
  from f have c: "m_drawWidth (getMetrics_f64 exampleDistance 900 700 defaultTransform)
        \<le> 780 * (1 + unitRoundoff) ^ 2
      \<and> m_drawLength (getMetrics_f64 exampleDistance 900 700 defaultTransform)
        \<le> 580 * (1 + unitRoundoff) ^ 2"
    by blast
  show ?thesis
    using c h by (simp add: w a t)
qed

text \<open>
  Claim C7 as stated fails by one rounding step: a 21 by 10 metre site in the 900 by 700
  canvas has the scale 37.142857142857146 and the drawn width 780.0000000000001, above
  the 780 pixels available.
\<close>

theorem fit_invariant_counterexample:
  "data_width exampleFit > 0 \<and> data_length exampleFit > 0
   \<and> (900 :: real) > 2 * padding \<and> (700 :: real) > 2 * padding
   \<and> t_scale defaultTransform = 1
   \<and> data_width exampleFit = 21 \<and> data_length exampleFit = 10
   \<and> m_drawWidth (getMetrics_f64 exampleFit 900 700 defaultTransform) = 780 + 1 / 2 ^ 43
   \<and> \<not> m_drawWidth (getMetrics_f64 exampleFit 900 700 defaultTransform) \<le> 900 - 2 * padding"
proof -
  have r0: "double (0) = 0"
    by (simp add: double_def ulp_def expo_def expoUp.simps expoDown.simps roundHalfEven_def Let_def)
  have r1: "double (1) = 1"
    by (simp add: double_def ulp_def expo_def expoUp.simps expoDown.simps roundHalfEven_def Let_def)
  have r2: "double (10) = 10"
    by (simp add: double_def ulp_def expo_def expoUp.simps expoDown.simps roundHalfEven_def Let_def)
  have r3: "double (21) = 21"
    by (simp add: double_def ulp_def expo_def expoUp.simps expoDown.simps roundHalfEven_def Let_def)
  have r4: "double (260 / 7) = 5227392424626469 / 140737488355328"
    by (simp add: double_def ulp_def expo_def expoUp.simps expoDown.simps roundHalfEven_def Let_def)
  have r5: "double (5227392424626469 / 140737488355328) = 5227392424626469 / 140737488355328"
    by (simp add: double_def ulp_def expo_def expoUp.simps expoDown.simps roundHalfEven_def Let_def)
  have r6: "double (58) = 58"
    by (simp add: double_def ulp_def expo_def expoUp.simps expoDown.simps roundHalfEven_def Let_def)
  have r7: "double (1055531162664959 / 17592186044416) = 1055531162664959 / 17592186044416"
    by (simp add: double_def ulp_def expo_def expoUp.simps expoDown.simps roundHalfEven_def Let_def)
  have r8: "double (1055531162664959 / 8796093022208) = 1055531162664959 / 8796093022208"
    by (simp add: double_def ulp_def expo_def expoUp.simps expoDown.simps roundHalfEven_def Let_def)
  have r9: "double (120) = 120"
    by (simp add: double_def ulp_def expo_def expoUp.simps expoDown.simps roundHalfEven_def Let_def)
  have r10: "double (2890144850154057 / 17592186044416) = 2890144850154057 / 17592186044416"
    by (simp add: double_def ulp_def expo_def expoUp.simps expoDown.simps roundHalfEven_def Let_def)
  have r11: "double (2890144850154057 / 8796093022208) = 2890144850154057 / 8796093022208"
    by (simp add: double_def ulp_def expo_def expoUp.simps expoDown.simps roundHalfEven_def Let_def)
  have r12: "double (26136962123132345 / 70368744177664) = 3267120265391543 / 8796093022208"
    by (simp add: double_def ulp_def expo_def expoUp.simps expoDown.simps roundHalfEven_def Let_def)
  have r13: "double (580) = 580"
    by (simp add: double_def ulp_def expo_def expoUp.simps expoDown.simps roundHalfEven_def Let_def)
  have r14: "double (700) = 700"
    by (simp add: double_def ulp_def expo_def expoUp.simps expoDown.simps roundHalfEven_def Let_def)
  have r15: "double (780) = 780"
    by (simp add: double_def ulp_def expo_def expoUp.simps expoDown.simps roundHalfEven_def Let_def)
  have r16: "double (109775240917155849 / 140737488355328) = 6860952557322241 / 8796093022208"
    by (simp add: double_def ulp_def expo_def expoUp.simps expoDown.simps roundHalfEven_def Let_def)
  have r17: "double (900) = 900"
    by (simp add: double_def ulp_def expo_def expoUp.simps expoDown.simps roundHalfEven_def Let_def)
  have d: "m_drawWidth (getMetrics_f64 exampleFit 900 700 defaultTransform) = 780 + 1 / 2 ^ 43"
    by (simp add: getMetrics_f64_def exampleFit_def exampleDistance_def defaultTransform_def
          padding_def orOne_def fadd_def fsub_def fmul_def fdiv_def Let_def r0 r1 r2 r3 r4 r5 r6 r7 r8 r9 r10 r11 r12 r13 r14 r15 r16 r17)
  show ?thesis
    by (simp add: d) (simp add: exampleFit_def exampleDistance_def defaultTransform_def padding_def)
qed

text \<open>
  Claim C3, as amended.  For a site with positive dimensions, a zoom in \<open>[0.5, 10]\<close>
  and a point within the site, mapping metres to pixels and back returns the point,
  provided the final scale is not zero; the scale is positive, hence not zero, whenever
  the viewport exceeds twice the padding in both directions.
\<close>

theorem transform_roundtrip:
  assumes "data_width data > 0" and "data_length data > 0"
      and "0.5 \<le> t_scale tr" and "t_scale tr \<le> 10"
      and "0 \<le> mx" and "mx \<le> data_width data"
      and "0 \<le> my" and "my \<le> data_length data"
      and "m = getMetrics data pixelWidth pixelHeight tr"
  shows "(m_scale m \<noteq> 0 \<longrightarrow>
            fromPxX m (getX m mx) = Fin mx \<and> fromPxY m (getY m my) = Fin my)
       \<and> (pixelWidth > 2 * padding \<and> pixelHeight > 2 * padding \<longrightarrow> m_scale m > 0)"
proof (intro conjI impI)
  assume nz: "m_scale m \<noteq> 0"
  then show "fromPxX m (getX m mx) = Fin mx"
    by (simp add: fromPxX_def getX_def toPx_def js_div_def)
  from nz show "fromPxY m (getY m my) = Fin my"
    by (simp add: fromPxY_def getY_def toPx_def js_div_def)
next
  assume big: "pixelWidth > 2 * padding \<and> pixelHeight > 2 * padding"
  have "0 < (pixelWidth - padding * 2) / orOne (data_width data)"
    using big assms(1) by (simp add: orOne_def)
  moreover have "0 < (pixelHeight - padding * 2) / orOne (data_length data)"
    using big assms(2) by (simp add: orOne_def)
  ultimately have "0 < min ((pixelWidth - padding * 2) / orOne (data_width data))
                           ((pixelHeight - padding * 2) / orOne (data_length data))"
    by simp
  moreover have "0 < t_scale tr" using assms(3) by simp
  ultimately show "m_scale m > 0"
    unfolding assms(9) getMetrics_scale by (rule mult_pos_pos)
qed

text \<open>
  Claim C3 as amended, at the point (5, 7) of a 20 by 30 metre site in a 900 by 700 canvas.
\<close>

theorem transform_roundtrip_witness:
  "data_width exampleDistance > 0 \<and> data_length exampleDistance > 0
   \<and> 0.5 \<le> t_scale defaultTransform \<and> t_scale defaultTransform \<le> 10
   \<and> (0::real) \<le> 5 \<and> 5 \<le> data_width exampleDistance
   \<and> (0::real) \<le> 7 \<and> 7 \<le> data_length exampleDistance
   \<and> (900::real) > 2 * padding \<and> (700::real) > 2 * padding
   \<and> m_scale (getMetrics exampleDistance 900 700 defaultTransform) \<noteq> 0
   \<and> fromPxX (getMetrics exampleDistance 900 700 defaultTransform)
        (getX (getMetrics exampleDistance 900 700 defaultTransform) 5) = Fin 5
   \<and> fromPxY (getMetrics exampleDistance 900 700 defaultTransform)
        (getY (getMetrics exampleDistance 900 700 defaultTransform) 7) = Fin 7"
proof -
  have h: "data_width exampleDistance > 0" "data_length exampleDistance > 0"
      "0.5 \<le> t_scale defaultTransform" "t_scale defaultTransform \<le> 10"
      "(0::real) \<le> 5" "5 \<le> data_width exampleDistance"
      "(0::real) \<le> 7" "7 \<le> data_length exampleDistance"
    by (simp_all add: exampleDistance_def defaultTransform_def)
  have p: "(900::real) > 2 * padding \<and> (700::real) > 2 * padding"
    by (simp add: padding_def)
  show ?thesis
    using h p transform_roundtrip [OF h refl, of 900 700] by auto
qed

text \<open>
  Claim C3 as stated ranges over every viewport.  A canvas 120 pixels wide leaves no
  room between the paddings: the scale is 0, every point maps to the origin pixel and the
  inverse mapping divides 0 by 0.
\<close>

theorem transform_roundtrip_counterexample:
  "data_width exampleDistance > 0 \<and> data_length exampleDistance > 0
   \<and> 0.5 \<le> t_scale defaultTransform \<and> t_scale defaultTransform \<le> 10
   \<and> (0::real) \<le> 5 \<and> 5 \<le> data_width exampleDistance
   \<and> m_scale (getMetrics exampleDistance 120 400 defaultTransform) = 0
   \<and> fromPxX (getMetrics exampleDistance 120 400 defaultTransform)
        (getX (getMetrics exampleDistance 120 400 defaultTransform) 5) = NaN
   \<and> fromPxX (getMetrics exampleDistance 120 400 defaultTransform)
        (getX (getMetrics exampleDistance 120 400 defaultTransform) 5) \<noteq> Fin 5"
  by (simp add: exampleDistance_def defaultTransform_def getMetrics_def Let_def padding_def
        orOne_def fromPxX_def getX_def toPx_def js_div_def)

section \<open>Scene renderer: verified properties\<close>

text \<open>
  Claim C8.  A site whose width or length is not positive gets the background fill and
  the placeholder text and nothing else: no floor, grid, wall, dimension, lighting or
  object call.  The function is total, and the path evaluates no division by zero
  (\<open>orOne\<close>).
\<close>

theorem degenerate_site_placeholder:
  assumes "data_width data \<le> 0 \<or> data_length data \<le> 0"
  shows "drawScene2D measureText data dragTarget width height tr =
           ([FillRect 0 0 width height, FillText Placeholder (width / 2) (height / 2)],
            getMetrics data width height tr)"
  using assms by (auto simp: drawScene2D_def Let_def)

text \<open>
  Claim C8 on the default project, whose site is 0 by 0.
\<close>

theorem degenerate_site_placeholder_witness:
  "(data_width DEFAULT_PROJECT \<le> 0 \<or> data_length DEFAULT_PROJECT \<le> 0)
   \<and> fst (drawScene2D (\<lambda>t. 40) DEFAULT_PROJECT None 900 700 defaultTransform) =
        [FillRect 0 0 900 700, FillText Placeholder 450 350]"
proof -
  have h: "data_width DEFAULT_PROJECT \<le> 0 \<or> data_length DEFAULT_PROJECT \<le> 0"
    by (simp add: DEFAULT_PROJECT_def)
  show ?thesis
    using h degenerate_site_placeholder [OF h, of "\<lambda>t. 40" None 900 700 defaultTransform]
    by simp
qed

text \<open>
  For contrast, a defined site does get its floor rectangle.
\<close>

lemma defined_site_draws_floor:
  assumes "data_width data > 0" and "data_length data > 0"
      and "m = getMetrics data width height tr"
  shows "FillRect (m_originX m) (m_originY m) (m_drawWidth m) (m_drawLength m)
           \<in> set (fst (drawScene2D measureText data dragTarget width height tr))"
  using assms by (simp add: drawScene2D_def drawFloor_def Let_def)

section \<open>Interaction controller: verified properties\<close>

text \<open>
  Snapped values are on the grid; clamping keeps a value on the grid or puts it on the upper bound.
\<close>

lemma onSnapGrid_multiple: "onSnapGrid (real_of_int k * SNAP_INCREMENT)"
  by (simp add: onSnapGrid_def SNAP_INCREMENT_def)

lemma onSnapGrid_zero: "onSnapGrid 0"
  by (simp add: onSnapGrid_def SNAP_INCREMENT_def)

lemma clamp_props:
  fixes s hi :: real
  assumes "onSnapGrid s" and "x = max 0 (min s hi)"
  shows "0 \<le> x" and "0 \<le> hi \<longrightarrow> x \<le> hi" and "onSnapGrid x \<or> x = hi"
  using assms onSnapGrid_zero by (auto simp: max_def min_def split: if_splits)

text \<open>
  Claim C4, as amended.  Whenever a drag update calls the move callback and the final
  scale is not zero, each reported coordinate is a value on the 0.5 grid clamped to its
  bounds: \<open>newX = max 0 (min sx (site.width - object.width))\<close>, likewise \<open>newY\<close>
  with length and depth.  So both are finite and non-negative; \<open>newX\<close> is at most
  \<open>site.width - object.width\<close> when the object is not wider than the site (likewise
  \<open>newY\<close>); and each coordinate is a multiple of 0.5 or equal to its upper bound.
\<close>

theorem drag_move_postcondition:
  assumes "handleMouseMove c mouseX mouseY = Some (ident, newX, newY)"
      and "m_scale (getMetrics (c_data c) (c_width c) (c_height c) (c_transform c)) \<noteq> 0"
  shows "\<exists>obj sx sy x y.
           find (\<lambda>r. obj_id r = ident) (getObjects (c_data c)) = Some obj
         \<and> onSnapGrid sx \<and> onSnapGrid sy
         \<and> x = max 0 (min sx (data_width (c_data c) - obj_width obj))
         \<and> y = max 0 (min sy (data_length (c_data c) - obj_depth obj))
         \<and> newX = Fin x \<and> newY = Fin y
         \<and> 0 \<le> x \<and> 0 \<le> y
         \<and> (obj_width obj \<le> data_width (c_data c) \<longrightarrow> x \<le> data_width (c_data c) - obj_width obj)
         \<and> (obj_depth obj \<le> data_length (c_data c) \<longrightarrow> y \<le> data_length (c_data c) - obj_depth obj)
         \<and> (onSnapGrid x \<or> x = data_width (c_data c) - obj_width obj)
         \<and> (onSnapGrid y \<or> y = data_length (c_data c) - obj_depth obj)"
proof -
  define m where "m = getMetrics (c_data c) (c_width c) (c_height c) (c_transform c)"
  have nz: "m_scale m \<noteq> 0" using assms(2) by (simp add: m_def)
  from assms(1) obtain dt obj where
    dt: "c_dragTarget c = Some dt" and idd: "ident = dt_id dt" and
    f: "find (\<lambda>r. obj_id r = dt_id dt) (getObjects (c_data c)) = Some obj" and
    nx: "newX = mathMax 0 (mathMin (snap (fromPxX m (mouseX - dt_offsetX dt)))
                              (data_width (c_data c) - obj_width obj))" and
    ny: "newY = mathMax 0 (mathMin (snap (fromPxY m (mouseY - dt_offsetY dt)))
                              (data_length (c_data c) - obj_depth obj))"
    by (auto simp: handleMouseMove_def Let_def m_def split: if_splits option.splits)
  define sx where "sx = real_of_int (round ((mouseX - dt_offsetX dt - m_originX m) / m_scale m
                                            / SNAP_INCREMENT)) * SNAP_INCREMENT"
  define sy where "sy = real_of_int (round ((mouseY - dt_offsetY dt - m_originY m) / m_scale m
                                            / SNAP_INCREMENT)) * SNAP_INCREMENT"
  define x where "x = max 0 (min sx (data_width (c_data c) - obj_width obj))"
  define y where "y = max 0 (min sy (data_length (c_data c) - obj_depth obj))"
  have gx: "onSnapGrid sx" unfolding sx_def by (rule onSnapGrid_multiple)
  have gy: "onSnapGrid sy" unfolding sy_def by (rule onSnapGrid_multiple)
  have ex: "newX = Fin x"
    using nz by (simp add: nx fromPxX_def js_div_def x_def sx_def)
  have ey: "newY = Fin y"
    using nz by (simp add: ny fromPxY_def js_div_def y_def sy_def)
  note px = clamp_props [OF gx x_def]
  note py = clamp_props [OF gy y_def]
  have "find (\<lambda>r. obj_id r = ident) (getObjects (c_data c)) = Some obj
         \<and> onSnapGrid sx \<and> onSnapGrid sy
         \<and> x = max 0 (min sx (data_width (c_data c) - obj_width obj))
         \<and> y = max 0 (min sy (data_length (c_data c) - obj_depth obj))
         \<and> newX = Fin x \<and> newY = Fin y
         \<and> 0 \<le> x \<and> 0 \<le> y
         \<and> (obj_width obj \<le> data_width (c_data c) \<longrightarrow> x \<le> data_width (c_data c) - obj_width obj)
         \<and> (obj_depth obj \<le> data_length (c_data c) \<longrightarrow> y \<le> data_length (c_data c) - obj_depth obj)
         \<and> (onSnapGrid x \<or> x = data_width (c_data c) - obj_width obj)
         \<and> (onSnapGrid y \<or> y = data_length (c_data c) - obj_depth obj)"
    using f idd gx gy x_def y_def ex ey px py by simp
  then show ?thesis by blast
qed

text \<open>
  Claim C4, the worked examples: an object of width 2 on a site of width 10 dragged to
  raw \<open>x = -5\<close> reports \<open>x = 0\<close>, and dragged to raw \<open>x = 9\<close> reports \<open>x = 8\<close>.
\<close>

theorem drag_move_postcondition_witness:
  "handleMouseMove (exampleCanvas ''a'') (-130) 234 = Some (''a'', Fin 0, Fin 3)
   \<and> handleMouseMove (exampleCanvas ''a'') 682 234 = Some (''a'', Fin 8, Fin 3)
   \<and> m_scale (getMetrics (c_data (exampleCanvas ''a'')) (c_width (exampleCanvas ''a''))
          (c_height (exampleCanvas ''a'')) (c_transform (exampleCanvas ''a''))) \<noteq> 0
   \<and> fromPxX (getMetrics exampleStorage 900 700 defaultTransform) (-130) = Fin (-5)
   \<and> fromPxX (getMetrics exampleStorage 900 700 defaultTransform) 682 = Fin 9
   \<and> (\<exists>obj sx sy x y.
           find (\<lambda>r. obj_id r = ''a'') (getObjects (c_data (exampleCanvas ''a''))) = Some obj
         \<and> onSnapGrid sx \<and> onSnapGrid sy
         \<and> x = max 0 (min sx (data_width (c_data (exampleCanvas ''a'')) - obj_width obj))
         \<and> y = max 0 (min sy (data_length (c_data (exampleCanvas ''a'')) - obj_depth obj))
         \<and> Fin 8 = Fin x \<and> Fin 3 = Fin y
         \<and> 0 \<le> x \<and> 0 \<le> y
         \<and> (obj_width obj \<le> data_width (c_data (exampleCanvas ''a''))
              \<longrightarrow> x \<le> data_width (c_data (exampleCanvas ''a'')) - obj_width obj)
         \<and> (obj_depth obj \<le> data_length (c_data (exampleCanvas ''a''))
              \<longrightarrow> y \<le> data_length (c_data (exampleCanvas ''a'')) - obj_depth obj)
         \<and> (onSnapGrid x \<or> x = data_width (c_data (exampleCanvas ''a'')) - obj_width obj)
         \<and> (onSnapGrid y \<or> y = data_length (c_data (exampleCanvas ''a'')) - obj_depth obj))"
proof -
  have m: "getMetrics exampleStorage 900 700 defaultTransform =
      \<lparr> m_scale = 58, m_originX = 160, m_originY = 60, m_drawWidth = 580, m_drawLength = 580 \<rparr>"
    by (simp add: getMetrics_def exampleStorage_def defaultTransform_def padding_def orOne_def
          Let_def)
  have r1: "round (- 10 :: real) = - 10" and r2: "round (6 :: real) = 6"
    and r3: "round (18 :: real) = 18"
    by (simp_all add: round_def)
  have a: "handleMouseMove (exampleCanvas ''a'') (-130) 234 = Some (''a'', Fin 0, Fin 3)"
    by (simp add: handleMouseMove_def exampleCanvas_def m Let_def fromPxX_def fromPxY_def
          js_div_def getObjects_def)
       (simp add: exampleStorage_def objA_def SNAP_INCREMENT_def r1 r2)
  have b: "handleMouseMove (exampleCanvas ''a'') 682 234 = Some (''a'', Fin 8, Fin 3)"
    by (simp add: handleMouseMove_def exampleCanvas_def m Let_def fromPxX_def fromPxY_def
          js_div_def getObjects_def)
       (simp add: exampleStorage_def objA_def SNAP_INCREMENT_def r2 r3)
  have z: "m_scale (getMetrics (c_data (exampleCanvas ''a'')) (c_width (exampleCanvas ''a''))
          (c_height (exampleCanvas ''a'')) (c_transform (exampleCanvas ''a''))) \<noteq> 0"
    by (simp add: exampleCanvas_def m)
  have p: "fromPxX (getMetrics exampleStorage 900 700 defaultTransform) (-130) = Fin (-5)"
      "fromPxX (getMetrics exampleStorage 900 700 defaultTransform) 682 = Fin 9"
    by (simp_all add: m fromPxX_def js_div_def)
  show ?thesis
    using a b z p drag_move_postcondition [OF b z] by blast
qed

text \<open>
  Claim C4 as stated fails for an object of width 1.2 and depth 12 on a 10 by 10 site:
  dragged to raw \<open>(9, 3)\<close> it is reported at \<open>x = 8.8\<close>, which is not a multiple
  of 0.5, and at \<open>y = 0\<close>, which is outside \<open>[0, 10 - 12]\<close>.
\<close>

theorem drag_move_counterexample:
  "racks (storage exampleStorage) = [objA, objB, objC]
   \<and> obj_id objC = ''c'' \<and> obj_width objC = 1.2 \<and> obj_depth objC = 12
   \<and> data_width exampleStorage = 10 \<and> data_length exampleStorage = 10
   \<and> fromPxX (getMetrics exampleStorage 900 700 defaultTransform) 682 = Fin 9
   \<and> fromPxY (getMetrics exampleStorage 900 700 defaultTransform) 234 = Fin 3
   \<and> handleMouseMove (exampleCanvas ''c'') 682 234 = Some (''c'', Fin 8.8, Fin 0)
   \<and> \<not> onSnapGrid 8.8
   \<and> \<not> (0 \<le> data_length exampleStorage - obj_depth objC)"
proof -
  have m: "getMetrics exampleStorage 900 700 defaultTransform =
      \<lparr> m_scale = 58, m_originX = 160, m_originY = 60, m_drawWidth = 580, m_drawLength = 580 \<rparr>"
    by (simp add: getMetrics_def exampleStorage_def defaultTransform_def padding_def orOne_def
          Let_def)
  have r2: "round (6 :: real) = 6" and r3: "round (18 :: real) = 18"
    by (simp_all add: round_def)
  have s: "racks (storage exampleStorage) = [objA, objB, objC]"
      "data_width exampleStorage = 10" "data_length exampleStorage = 10"
    by (simp_all add: exampleStorage_def)
  have c: "obj_id objC = ''c''" "obj_width objC = 1.2" "obj_depth objC = 12"
    by (simp_all add: objC_def)
  have p: "fromPxX (getMetrics exampleStorage 900 700 defaultTransform) 682 = Fin 9"
      "fromPxY (getMetrics exampleStorage 900 700 defaultTransform) 234 = Fin 3"
    by (simp_all add: m fromPxX_def fromPxY_def js_div_def)
  have f: "find (\<lambda>r. obj_id r = ''c'') (getObjects (c_data (exampleCanvas ''c''))) = Some objC"
    by (simp add: exampleCanvas_def getObjects_def exampleStorage_def objA_def objB_def objC_def)
  have a: "handleMouseMove (exampleCanvas ''c'') 682 234 = Some (''c'', Fin 8.8, Fin 0)"
    using f
    by (simp add: handleMouseMove_def exampleCanvas_def m Let_def fromPxX_def fromPxY_def
          js_div_def SNAP_INCREMENT_def r2 r3)
       (simp add: exampleStorage_def objC_def)
  have g: "\<not> onSnapGrid 8.8"
    by (simp add: onSnapGrid_def SNAP_INCREMENT_def)
  have d: "\<not> (0 \<le> data_length exampleStorage - obj_depth objC)"
    by (simp add: exampleStorage_def objC_def)
  show ?thesis using s c p a g d by blast
qed

section \<open>Nearest-neighbour gaps: verified properties\<close>

text \<open>
  A gap stored for a side was either there before or is the edge-to-edge distance to the
  object stored with it.
\<close>

lemma closer_cases:
  "closer gap other cur = Some (g, n) \<Longrightarrow> cur = Some (g, n) \<or> (g = gap \<and> n = other)"
  by (auto simp: closer_def split: option.splits if_splits)

lemma neighborStep_closestRight:
  "closestRight (neighborStep obj s other) =
     (if yRangesOverlap obj other \<and> obj_x other \<ge> obj_x obj + obj_width obj
      then closer (obj_x other - (obj_x obj + obj_width obj)) other (closestRight s)
      else closestRight s)"
  by (simp add: neighborStep_def yRangesOverlap_def Let_def)

lemma neighborStep_closestLeft:
  "closestLeft (neighborStep obj s other) =
     (if yRangesOverlap obj other \<and> obj_x other + obj_width other \<le> obj_x obj
      then closer (obj_x obj - (obj_x other + obj_width other)) other (closestLeft s)
      else closestLeft s)"
  by (simp add: neighborStep_def yRangesOverlap_def Let_def)

lemma neighborStep_right:
  assumes "closestRight (neighborStep obj s other) = Some (g, n)"
  shows "closestRight s = Some (g, n) \<or> g = obj_x n - (obj_x obj + obj_width obj)"
proof (cases "yRangesOverlap obj other \<and> obj_x other \<ge> obj_x obj + obj_width obj")
  case True
  with assms have "closer (obj_x other - (obj_x obj + obj_width obj)) other (closestRight s)
      = Some (g, n)"
    by (simp add: neighborStep_closestRight)
  from closer_cases [OF this] show ?thesis by auto
next
  case False
  with assms show ?thesis by (simp add: neighborStep_closestRight)
qed

lemma neighborStep_left:
  assumes "closestLeft (neighborStep obj s other) = Some (g, n)"
  shows "closestLeft s = Some (g, n) \<or> g = obj_x obj - (obj_x n + obj_width n)"
proof (cases "yRangesOverlap obj other \<and> obj_x other + obj_width other \<le> obj_x obj")
  case True
  with assms have "closer (obj_x obj - (obj_x other + obj_width other)) other (closestLeft s)
      = Some (g, n)"
    by (simp add: neighborStep_closestLeft)
  from closer_cases [OF this] show ?thesis by auto
next
  case False
  with assms show ?thesis by (simp add: neighborStep_closestLeft)
qed

lemma foldl_right:
  "closestRight (foldl (neighborStep obj) s others) = Some (g, n) \<Longrightarrow>
     closestRight s = Some (g, n) \<or> g = obj_x n - (obj_x obj + obj_width obj)"
proof (induction others arbitrary: s)
  case Nil
  then show ?case by simp
next
  case (Cons other others)
  from Cons.prems have
    "closestRight (foldl (neighborStep obj) (neighborStep obj s other) others) = Some (g, n)"
    by simp
  from Cons.IH [OF this] show ?case
    using neighborStep_right by blast
qed

lemma foldl_left:
  "closestLeft (foldl (neighborStep obj) s others) = Some (g, n) \<Longrightarrow>
     closestLeft s = Some (g, n) \<or> g = obj_x obj - (obj_x n + obj_width n)"
proof (induction others arbitrary: s)
  case Nil
  then show ?case by simp
next
  case (Cons other others)
  from Cons.prems have
    "closestLeft (foldl (neighborStep obj) (neighborStep obj s other) others) = Some (g, n)"
    by simp
  from Cons.IH [OF this] show ?case
    using neighborStep_left by blast
qed

text \<open>
  The overlap test is symmetric, and a scene of two objects selects each as the other one's neighbour.
\<close>

lemma yRangesOverlap_sym: "yRangesOverlap b a = yRangesOverlap a b"
  by (simp add: yRangesOverlap_def min.commute max.commute)

lemma pair_right:
  assumes "obj_id a \<noteq> obj_id b" and "yRangesOverlap a b"
      and "obj_x a + obj_width a \<le> obj_x b"
  shows "closestRight (findNeighbors [a, b] a) = Some (obj_x b - (obj_x a + obj_width a), b)"
  using assms
  by (simp add: findNeighbors_def neighborStep_closestRight closer_def Let_def)

lemma pair_left:
  assumes "obj_id a \<noteq> obj_id b" and "yRangesOverlap a b"
      and "obj_x a + obj_width a \<le> obj_x b"
  shows "closestLeft (findNeighbors [a, b] b) = Some (obj_x b - (obj_x a + obj_width a), a)"
proof -
  have "yRangesOverlap b a" using assms(2) by (simp add: yRangesOverlap_sym)
  then show ?thesis
    using assms(1,3)
    by (simp add: findNeighbors_def neighborStep_closestLeft closer_def Let_def)
qed

text \<open>
  Claim C5.  In any scene, when \<open>b\<close> is the right neighbour selected for the dragged
  \<open>a\<close> and \<open>a\<close> is the left neighbour selected for the dragged \<open>b\<close>, the two gaps
  are equal, namely \<open>b.x - (a.x + a.width)\<close>.  In the scene of two objects with distinct
  identifiers whose Y-ranges overlap (with the tolerance) and where \<open>b\<close> starts at or
  after the right edge of \<open>a\<close>, both gaps are computed and equal.
\<close>

theorem neighbor_gap_symmetry:
  "(closestRight (findNeighbors objects a) = Some (g1, b)
      \<and> closestLeft (findNeighbors objects b) = Some (g2, a)
      \<longrightarrow> g1 = g2 \<and> g1 = obj_x b - (obj_x a + obj_width a))
   \<and> (obj_id a \<noteq> obj_id b \<and> yRangesOverlap a b \<and> obj_x a + obj_width a \<le> obj_x b
      \<longrightarrow> rightGap [a, b] a = Some (obj_x b - (obj_x a + obj_width a))
        \<and> leftGap [a, b] b = rightGap [a, b] a)"
proof (intro conjI impI)
  assume h: "closestRight (findNeighbors objects a) = Some (g1, b)
      \<and> closestLeft (findNeighbors objects b) = Some (g2, a)"
  have r: "g1 = obj_x b - (obj_x a + obj_width a)"
    using h foldl_right [of a _ _ g1 b] by (fastforce simp: findNeighbors_def Let_def)
  have l: "g2 = obj_x b - (obj_x a + obj_width a)"
    using h foldl_left [of b _ _ g2 a] by (fastforce simp: findNeighbors_def Let_def)
  show "g1 = g2" using r l by simp
  show "g1 = obj_x b - (obj_x a + obj_width a)" by (rule r)
next
  assume h: "obj_id a \<noteq> obj_id b \<and> yRangesOverlap a b \<and> obj_x a + obj_width a \<le> obj_x b"
  then have h1: "obj_id a \<noteq> obj_id b" and h2: "yRangesOverlap a b"
    and h3: "obj_x a + obj_width a \<le> obj_x b" by simp_all
  show "rightGap [a, b] a = Some (obj_x b - (obj_x a + obj_width a))"
    by (simp add: rightGap_def pair_right [OF h1 h2 h3])
  show "leftGap [a, b] b = rightGap [a, b] a"
    by (simp add: rightGap_def leftGap_def pair_right [OF h1 h2 h3] pair_left [OF h1 h2 h3])
qed

text \<open>
  Claim C5, the worked example: A at (0, 0) and B at (5, 0), both 2 by 2, have the gap 3.
\<close>

theorem neighbor_gap_symmetry_witness:
  "obj_id objA \<noteq> obj_id objB \<and> yRangesOverlap objA objB
   \<and> obj_x objA + obj_width objA \<le> obj_x objB
   \<and> rightGap [objA, objB] objA = Some 3
   \<and> leftGap [objA, objB] objB = Some 3"
proof -
  have h: "obj_id objA \<noteq> obj_id objB \<and> yRangesOverlap objA objB
      \<and> obj_x objA + obj_width objA \<le> obj_x objB"
    by (simp add: objA_def objB_def yRangesOverlap_def EPSILON_def)
  have v: "obj_x objB - (obj_x objA + obj_width objA) = 3"
    by (simp add: objA_def objB_def)
  show ?thesis
    using h v neighbor_gap_symmetry [of "[objA, objB]" objA 3 objB 3] by simp
qed

section \<open>Object collection: verified properties\<close>

text \<open>
  Claim C9.  Every object of the collection has positive width and depth: this holds
  initially and is preserved by add, move, relabel, delete and reset.  An add with a
  non-positive width or depth leaves the project data unchanged; move and relabel keep
  every width and depth, and delete only removes objects.
\<close>

theorem positive_footprint_invariant:
  "positiveFootprint DEFAULT_PROJECT
   \<and> (positiveFootprint data \<longrightarrow>
         positiveFootprint (handleAddObject newId inputMode newRackDims newMezzDims data)
       \<and> positiveFootprint (handleRackMove ident x y data)
       \<and> positiveFootprint (updateRackLabel ident newLabel data)
       \<and> positiveFootprint (removeRack ident data))
   \<and> positiveFootprint (resetStorage data)
   \<and> ((if inputMode = MEZZANINE then md_w newMezzDims else rd_w newRackDims) \<le> 0
        \<or> (if inputMode = MEZZANINE then md_d newMezzDims else rd_d newRackDims) \<le> 0
       \<longrightarrow> handleAddObject newId inputMode newRackDims newMezzDims data = data)
   \<and> map obj_width (racks (storage (handleRackMove ident x y data)))
         = map obj_width (racks (storage data))
   \<and> map obj_depth (racks (storage (handleRackMove ident x y data)))
         = map obj_depth (racks (storage data))
   \<and> map obj_width (racks (storage (updateRackLabel ident newLabel data)))
         = map obj_width (racks (storage data))
   \<and> map obj_depth (racks (storage (updateRackLabel ident newLabel data)))
         = map obj_depth (racks (storage data))
   \<and> set (racks (storage (removeRack ident data))) \<subseteq> set (racks (storage data))"
proof -
  have d: "positiveFootprint DEFAULT_PROJECT"
    by (simp add: positiveFootprint_def DEFAULT_PROJECT_def)
  have a: "positiveFootprint (handleAddObject newId inputMode newRackDims newMezzDims data)"
    if "positiveFootprint data"
    using that by (auto simp: positiveFootprint_def handleAddObject_def Let_def)
  have m: "positiveFootprint (handleRackMove ident x y data)" if "positiveFootprint data"
    using that by (auto simp: positiveFootprint_def handleRackMove_def list_all_iff)
  have u: "positiveFootprint (updateRackLabel ident newLabel data)" if "positiveFootprint data"
    using that by (auto simp: positiveFootprint_def updateRackLabel_def list_all_iff)
  have r: "positiveFootprint (removeRack ident data)" if "positiveFootprint data"
    using that by (auto simp: positiveFootprint_def removeRack_def list_all_iff)
  have z: "positiveFootprint (resetStorage data)"
    by (simp add: positiveFootprint_def resetStorage_def)
  have rej: "handleAddObject newId inputMode newRackDims newMezzDims data = data"
    if "(if inputMode = MEZZANINE then md_w newMezzDims else rd_w newRackDims) \<le> 0
        \<or> (if inputMode = MEZZANINE then md_d newMezzDims else rd_d newRackDims) \<le> 0"
    using that by (auto simp: handleAddObject_def Let_def)
  have mw: "map obj_width (racks (storage (handleRackMove ident x y data)))
         = map obj_width (racks (storage data))"
    by (simp add: handleRackMove_def)
  have md: "map obj_depth (racks (storage (handleRackMove ident x y data)))
         = map obj_depth (racks (storage data))"
    by (simp add: handleRackMove_def)
  have uw: "map obj_width (racks (storage (updateRackLabel ident newLabel data)))
         = map obj_width (racks (storage data))"
    by (simp add: updateRackLabel_def)
  have ud: "map obj_depth (racks (storage (updateRackLabel ident newLabel data)))
         = map obj_depth (racks (storage data))"
    by (simp add: updateRackLabel_def)
  have sub: "set (racks (storage (removeRack ident data))) \<subseteq> set (racks (storage data))"
    by (auto simp: removeRack_def)
  show ?thesis
    using d a m u r z rej mw md uw ud sub by blast
qed

text \<open>
  Claim C9 on a collection of three objects, with an accepted and a rejected add.
\<close>

theorem positive_footprint_invariant_witness:
  "positiveFootprint exampleStorage
   \<and> positiveFootprint (handleAddObject ''d'' RACK \<lparr> rd_w = 1.2, rd_d = 1, rd_h = 2 \<rparr>
         \<lparr> md_w = 5, md_d = 5, md_el = 3 \<rparr> exampleStorage)
   \<and> positiveFootprint (handleRackMove ''a'' 3 4 exampleStorage)
   \<and> positiveFootprint (updateRackLabel ''a'' ''North'' exampleStorage)
   \<and> positiveFootprint (removeRack ''a'' exampleStorage)
   \<and> rd_w \<lparr> rd_w = 0, rd_d = 1, rd_h = 2 \<rparr> \<le> 0
   \<and> handleAddObject ''d'' RACK \<lparr> rd_w = 0, rd_d = 1, rd_h = 2 \<rparr>
         \<lparr> md_w = 5, md_d = 5, md_el = 3 \<rparr> exampleStorage = exampleStorage"
proof -
  have p: "positiveFootprint exampleStorage"
    by (simp add: positiveFootprint_def exampleStorage_def objA_def objB_def objC_def)
  have w: "(if RACK = MEZZANINE then md_w \<lparr> md_w = 5, md_d = 5, md_el = 3 \<rparr>
            else rd_w \<lparr> rd_w = 0, rd_d = 1, rd_h = 2 \<rparr>) \<le> 0"
    by simp
  show ?thesis
    using p w
      positive_footprint_invariant [of exampleStorage "''d''" RACK
        "\<lparr> rd_w = 1.2, rd_d = 1, rd_h = 2 \<rparr>" "\<lparr> md_w = 5, md_d = 5, md_el = 3 \<rparr>"
        "''a''" 3 4 "''North''"]
      positive_footprint_invariant [of exampleStorage "''d''" RACK
        "\<lparr> rd_w = 0, rd_d = 1, rd_h = 2 \<rparr>" "\<lparr> md_w = 5, md_d = 5, md_el = 3 \<rparr>"
        "''a''" 3 4 "''North''"]
    by simp
qed

text \<open>
  Claim C10.  A move of \<open>ident\<close> to \<open>(x, y)\<close> keeps the number and order of the
  objects, leaves every object with another identifier unchanged, changes only \<open>x\<close>
  and \<open>y\<close> of an object with that identifier, and leaves the site dimensions, the
  lighting configuration and every other field of the project unchanged.
\<close>

theorem move_frame_condition:
  "let data' = handleRackMove ident x y data;
       rs = racks (storage data);
       rs' = racks (storage data')
   in length rs' = length rs
    \<and> (\<forall>i < length rs.
          (obj_id (rs ! i) \<noteq> ident \<longrightarrow> rs' ! i = rs ! i)
        \<and> (obj_id (rs ! i) = ident \<longrightarrow>
              obj_x (rs' ! i) = x \<and> obj_y (rs' ! i) = y
            \<and> obj_id (rs' ! i) = obj_id (rs ! i)
            \<and> obj_type (rs' ! i) = obj_type (rs ! i)
            \<and> obj_width (rs' ! i) = obj_width (rs ! i)
            \<and> obj_depth (rs' ! i) = obj_depth (rs ! i)
            \<and> obj_height (rs' ! i) = obj_height (rs ! i)
            \<and> obj_elevation (rs' ! i) = obj_elevation (rs ! i)
            \<and> obj_label (rs' ! i) = obj_label (rs ! i)))
    \<and> data_width data' = data_width data
    \<and> data_length data' = data_length data
    \<and> ceilingHeight data' = ceilingHeight data
    \<and> lighting data' = lighting data
    \<and> projectName data' = projectName data
    \<and> luxRequired data' = luxRequired data
    \<and> observations data' = observations data
    \<and> s_isActive (storage data') = s_isActive (storage data)"
  by (simp add: handleRackMove_def Let_def)

text \<open>
  Claim C10 on a collection of three objects, moving the first.
\<close>

theorem move_frame_condition_witness:
  "racks (storage exampleStorage) = [objA, objB, objC]
   \<and> racks (storage (handleRackMove ''a'' 3 4 exampleStorage)) ! 1 = objB
   \<and> racks (storage (handleRackMove ''a'' 3 4 exampleStorage)) ! 2 = objC
   \<and> obj_x (racks (storage (handleRackMove ''a'' 3 4 exampleStorage)) ! 0) = 3
   \<and> obj_y (racks (storage (handleRackMove ''a'' 3 4 exampleStorage)) ! 0) = 4
   \<and> obj_width (racks (storage (handleRackMove ''a'' 3 4 exampleStorage)) ! 0) = 2
   \<and> obj_label (racks (storage (handleRackMove ''a'' 3 4 exampleStorage)) ! 0) = ''B1''
   \<and> data_width (handleRackMove ''a'' 3 4 exampleStorage) = 10
   \<and> lighting (handleRackMove ''a'' 3 4 exampleStorage) = lighting exampleStorage"
proof -
  have rs: "racks (storage exampleStorage) = [objA, objB, objC]"
    by (simp add: exampleStorage_def)
  have ids: "obj_id objA = ''a''" "obj_id objB \<noteq> ''a''" "obj_id objC \<noteq> ''a''"
    by (simp_all add: objA_def objB_def objC_def)
  have vals: "obj_width objA = 2" "obj_label objA = ''B1''" "data_width exampleStorage = 10"
    by (simp_all add: objA_def exampleStorage_def)
  note f = move_frame_condition [of "''a''" 3 4 exampleStorage, unfolded Let_def rs]
  from f have len: "length (racks (storage (handleRackMove ''a'' 3 4 exampleStorage))) = 3"
    by simp
  from f have i0: "obj_x (racks (storage (handleRackMove ''a'' 3 4 exampleStorage)) ! 0) = 3
      \<and> obj_y (racks (storage (handleRackMove ''a'' 3 4 exampleStorage)) ! 0) = 4
      \<and> obj_width (racks (storage (handleRackMove ''a'' 3 4 exampleStorage)) ! 0) = 2
      \<and> obj_label (racks (storage (handleRackMove ''a'' 3 4 exampleStorage)) ! 0) = ''B1''"
    using ids vals by (auto dest!: conjunct1 [OF conjunct2] spec [of _ 0])
  from f have i1: "racks (storage (handleRackMove ''a'' 3 4 exampleStorage)) ! 1 = objB"
    using ids by (auto dest!: conjunct1 [OF conjunct2] spec [of _ 1])
  from f have i2: "racks (storage (handleRackMove ''a'' 3 4 exampleStorage)) ! 2 = objC"
    using ids by (auto dest!: conjunct1 [OF conjunct2] spec [of _ 2])
  from f have rest: "data_width (handleRackMove ''a'' 3 4 exampleStorage) = 10
      \<and> lighting (handleRackMove ''a'' 3 4 exampleStorage) = lighting exampleStorage"
    using vals by simp
  show ?thesis using rs i0 i1 i2 rest by simp
qed

end
